theory Spec2Isabelle
  imports Complex_Main "HOL-Library.Char_ord" "HOL-Library.List_Lexorder"
    "HOL-Library.Sublist" "HOL-Library.Log_Nat" "HOL-Library.Word" "HOL-Library.AList"
begin

section \<open>Go strings\<close>

text \<open>
  A Go string is a sequence of bytes, here a \<^typ>\<open>string\<close>. The functions of the Go
  package \<^verbatim>\<open>strings\<close> that the handlers call are written out on byte lists.
  \<^verbatim>\<open>strings.TrimSpace\<close> removes leading and trailing white space as Unicode defines it:
  the runes listed in \<open>unicodeSpace\<close>, each given by its UTF-8 encoding.
\<close>

definition unicodeSpace :: "string list" where
  "unicodeSpace =
    [[CHR 0x09], [CHR 0x0A], [CHR 0x0B], [CHR 0x0C], [CHR 0x0D], [CHR 0x20],
     [CHR 0xC2, CHR 0x85], [CHR 0xC2, CHR 0xA0],
     [CHR 0xE1, CHR 0x9A, CHR 0x80],
     [CHR 0xE2, CHR 0x80, CHR 0x80], [CHR 0xE2, CHR 0x80, CHR 0x81],
     [CHR 0xE2, CHR 0x80, CHR 0x82], [CHR 0xE2, CHR 0x80, CHR 0x83],
     [CHR 0xE2, CHR 0x80, CHR 0x84], [CHR 0xE2, CHR 0x80, CHR 0x85],
     [CHR 0xE2, CHR 0x80, CHR 0x86], [CHR 0xE2, CHR 0x80, CHR 0x87],
     [CHR 0xE2, CHR 0x80, CHR 0x88], [CHR 0xE2, CHR 0x80, CHR 0x89],
     [CHR 0xE2, CHR 0x80, CHR 0x8A],
     [CHR 0xE2, CHR 0x80, CHR 0xA8], [CHR 0xE2, CHR 0x80, CHR 0xA9],
     [CHR 0xE2, CHR 0x80, CHR 0xAF], [CHR 0xE2, CHR 0x81, CHR 0x9F],
     [CHR 0xE3, CHR 0x80, CHR 0x80]]"

definition leadingSpace :: "string \<Rightarrow> string option" where
  "leadingSpace s = find (\<lambda>w. prefix w s) unicodeSpace"

definition trailingSpace :: "string \<Rightarrow> string option" where
  "trailingSpace s = find (\<lambda>w. suffix w s) unicodeSpace"

lemma unicodeSpace_nonempty: "w \<in> set unicodeSpace \<Longrightarrow> w \<noteq> []"
  by (auto simp: unicodeSpace_def)

lemma leadingSpace_Some: "leadingSpace s = Some w \<Longrightarrow> w \<noteq> [] \<and> prefix w s"
  by (auto simp: leadingSpace_def find_Some_iff unicodeSpace_nonempty)

lemma trailingSpace_Some: "trailingSpace s = Some w \<Longrightarrow> w \<noteq> [] \<and> suffix w s"
  by (auto simp: trailingSpace_def find_Some_iff unicodeSpace_nonempty)

function TrimLeft :: "string \<Rightarrow> string" where
  "TrimLeft s =
     (case leadingSpace s of
        None \<Rightarrow> s
      | Some w \<Rightarrow> TrimLeft (drop (length w) s))"
  by pat_completeness auto
termination
proof (relation "measure length")
  show "wf (measure length)" by simp
next
  fix s w
  assume "leadingSpace s = Some w"
  then have "w \<noteq> []" and "prefix w s"
    using leadingSpace_Some by blast+
  then have "s \<noteq> []" by auto
  with \<open>w \<noteq> []\<close> show "(drop (length w) s, s) \<in> measure length" by simp
qed

function TrimRight :: "string \<Rightarrow> string" where
  "TrimRight s =
     (case trailingSpace s of
        None \<Rightarrow> s
      | Some w \<Rightarrow> TrimRight (take (length s - length w) s))"
  by pat_completeness auto
termination
proof (relation "measure length")
  show "wf (measure length)" by simp
next
  fix s w
  assume "trailingSpace s = Some w"
  then have "w \<noteq> []" and "suffix w s"
    using trailingSpace_Some by blast+
  then have "s \<noteq> []" by auto
  with \<open>w \<noteq> []\<close> show "(take (length s - length w) s, s) \<in> measure length" by simp
qed

declare TrimLeft.simps [simp del] TrimRight.simps [simp del]

definition TrimSpace :: "string \<Rightarrow> string" where
  "TrimSpace s = TrimRight (TrimLeft s)"

definition HasPrefix :: "string \<Rightarrow> string \<Rightarrow> bool" where
  "HasPrefix s p = prefix p s"

definition TrimPrefix :: "string \<Rightarrow> string \<Rightarrow> string" where
  "TrimPrefix s p = (if prefix p s then drop (length p) s else s)"

definition TrimSuffix :: "string \<Rightarrow> string \<Rightarrow> string" where
  "TrimSuffix s x = (if suffix x s then take (length s - length x) s else s)"

fun Contains :: "string \<Rightarrow> string \<Rightarrow> bool" where
  "Contains [] sub = (sub = [])"
| "Contains (c # s) sub = (prefix sub (c # s) \<or> Contains s sub)"

fun Join :: "string list \<Rightarrow> string \<Rightarrow> string" where
  "Join [] sep = []"
| "Join [x] sep = x"
| "Join (x # y # zs) sep = x @ sep @ Join (y # zs) sep"

text \<open>\<^verbatim>\<open>strings.Split(s, sep)\<close> for a separator of one byte, as \<open>quoteTableName\<close> calls it.\<close>

fun Split :: "string \<Rightarrow> char \<Rightarrow> string list" where
  "Split [] sep = [[]]"
| "Split (c # s) sep =
     (if c = sep then [] # Split s sep
      else (case Split s sep of [] \<Rightarrow> [[c]] | p # ps \<Rightarrow> (c # p) # ps))"

text \<open>\<^verbatim>\<open>strings.ReplaceAll(s, old, new)\<close> for an \<open>old\<close> of one byte.\<close>

definition ReplaceAll :: "string \<Rightarrow> char \<Rightarrow> string \<Rightarrow> string" where
  "ReplaceAll s old new = concat (map (\<lambda>c. if c = old then new else [c]) s)"

text \<open>The decimal text of a natural number, as the verb \<^verbatim>\<open>%d\<close> of \<^verbatim>\<open>fmt.Sprintf\<close> prints it.\<close>

definition digit :: "nat \<Rightarrow> char" where
  "digit d = char_of (48 + d)"

fun decimal :: "nat \<Rightarrow> string" where
  "decimal n = (if n < 10 then [digit n] else decimal (n div 10) @ [digit (n mod 10)])"

declare decimal.simps [simp del]

section \<open>The cascading query executor\<close>

text \<open>
  \<^verbatim>\<open>a.DB.QueryContext(ctx, query)\<close> returns a result set or an error. Within one request
  the database is a function from the query text to that outcome; \<open>'rows\<close> is the type of
  result sets.
\<close>

datatype dbError = ErrNoRows | DBError string

type_synonym 'rows database = "string \<Rightarrow> dbError + 'rows"

text \<open>
  The state of the loop of \<open>bannersHandler\<close> and \<open>tuningHandler\<close>: the variables
  \<^verbatim>\<open>rows\<close> and \<^verbatim>\<open>err\<close>, and the queries sent to the database so far, oldest first.
\<close>

record 'rows cascade =
  rows :: "'rows option"
  err :: "dbError option"
  executed :: "string list"

definition cascadeStart :: "'rows cascade" where
  "cascadeStart = \<lparr>rows = None, err = None, executed = []\<rparr>"

text \<open>
  \<^verbatim>\<open>for _, query := range queries { rows, err = a.DB.QueryContext(ctx, query); if err == nil { break } }\<close>
\<close>

fun queryLoop :: "'rows database \<Rightarrow> string list \<Rightarrow> 'rows cascade \<Rightarrow> 'rows cascade" where
  "queryLoop db [] st = st"
| "queryLoop db (query # queries) st =
     (case db query of
        Inr rs \<Rightarrow> \<lparr>rows = Some rs, err = None, executed = executed st @ [query]\<rparr>
      | Inl e \<Rightarrow>
          queryLoop db queries \<lparr>rows = None, err = Some e, executed = executed st @ [query]\<rparr>)"

definition runCandidates :: "'rows database \<Rightarrow> string list \<Rightarrow> 'rows cascade" where
  "runCandidates db queries = queryLoop db queries cascadeStart"

text \<open>
  What a read handler has done when its check \<^verbatim>\<open>if err != nil\<close> is over: it has answered
  with \<^verbatim>\<open>http.Error\<close> (message and status code; \<open>logged\<close> is the line given to
  \<^verbatim>\<open>log.Printf\<close>, if any), or it goes on to read the rows.
\<close>

datatype 'rows fetched =
    HttpError (message: string) (code: nat) (logged: "string option")
  | ReadRows "'rows option"

definition errorText :: "dbError \<Rightarrow> string" where
  "errorText e = (case e of ErrNoRows \<Rightarrow> ''sql: no rows in result set'' | DBError m \<Rightarrow> m)"

definition bannersQueries :: "string list" where
  "bannersQueries =
    [''SELECT id, section, title, COALESCE(to_jsonb(b)->>'image_url', to_jsonb(b)->>'image') AS image_url, priority\<newline>		FROM public.banners b\<newline>		ORDER BY priority ASC, id ASC'',
     ''SELECT id, section, title, COALESCE(to_jsonb(b)->>'image_url', to_jsonb(b)->>'image') AS image_url, priority\<newline>		FROM banners b\<newline>		ORDER BY priority ASC, id ASC'']"

definition tuningQueries :: "string list" where
  "tuningQueries =
    [''SELECT id, to_jsonb(t)->>'brand' AS brand, to_jsonb(t)->>'model' AS model, NULL::text AS title, card_image_url, full_image_url, description, card_description, full_description, video_image_url, video_link, to_jsonb(t)->>'price' AS price, created_at, updated_at\<newline>		FROM public.tuning t\<newline>		ORDER BY created_at DESC, id DESC'',
     ''SELECT id, to_jsonb(t)->>'brand' AS brand, to_jsonb(t)->>'model' AS model, title, card_image_url, full_image_url, title AS description, card_description, full_description, video_image_url, video_link, to_jsonb(t)->>'price' AS price, created_at, updated_at\<newline>		FROM public.tuning t\<newline>		ORDER BY created_at DESC, id DESC'',
     ''SELECT id, to_jsonb(t)->>'brand' AS brand, to_jsonb(t)->>'model' AS model, NULL::text AS title, card_image_url, NULL::jsonb AS full_image_url, description, card_description, full_description, video_image_url, video_link, to_jsonb(t)->>'price' AS price, created_at, updated_at\<newline>		FROM public.tuning t\<newline>		ORDER BY created_at DESC, id DESC'',
     ''SELECT id, to_jsonb(t)->>'brand' AS brand, to_jsonb(t)->>'model' AS model, title, card_image_url, NULL::jsonb AS full_image_url, title AS description, card_description, full_description, video_image_url, video_link, to_jsonb(t)->>'price' AS price, created_at, updated_at\<newline>		FROM public.tuning t\<newline>		ORDER BY created_at DESC, id DESC'',
     ''SELECT row_number() OVER () AS id, to_jsonb(t)->>'brand' AS brand, to_jsonb(t)->>'model' AS model, NULL::text AS title, card_image_url, NULL::jsonb AS full_image_url, description, card_description, full_description, video_image_url, video_link, to_jsonb(t)->>'price' AS price, NOW() AS created_at, NOW() AS updated_at\<newline>		FROM public.tuning t'',
     ''SELECT row_number() OVER () AS id, to_jsonb(t)->>'brand' AS brand, to_jsonb(t)->>'model' AS model, title, card_image_url, NULL::jsonb AS full_image_url, title AS description, card_description, full_description, video_image_url, video_link, to_jsonb(t)->>'price' AS price, NOW() AS created_at, NOW() AS updated_at\<newline>		FROM public.tuning t'',
     ''SELECT id, to_jsonb(t)->>'brand' AS brand, to_jsonb(t)->>'model' AS model, NULL::text AS title, card_image_url, full_image_url, description, card_description, full_description, video_image_url, video_link, to_jsonb(t)->>'price' AS price, created_at, updated_at\<newline>		FROM public.tunning t\<newline>		ORDER BY created_at DESC, id DESC'',
     ''SELECT id, to_jsonb(t)->>'brand' AS brand, to_jsonb(t)->>'model' AS model, title, card_image_url, full_image_url, title AS description, card_description, full_description, video_image_url, video_link, to_jsonb(t)->>'price' AS price, created_at, updated_at\<newline>		FROM public.tunning t\<newline>		ORDER BY created_at DESC, id DESC'']"

text \<open>
  The handlers up to their check of \<^verbatim>\<open>err\<close>, for any list of candidates. In
  \<open>ReadRows None\<close> the handler goes on with a nil \<^verbatim>\<open>*sql.Rows\<close>.
\<close>

definition bannersHandlerWith :: "string list \<Rightarrow> string \<Rightarrow> 'rows database \<Rightarrow> 'rows fetched" where
  "bannersHandlerWith queries method db =
     (if method \<noteq> ''GET'' then HttpError ''method not allowed'' 405 None
      else
        let st = runCandidates db queries in
        (case err st of
           Some e \<Rightarrow>
             HttpError ''failed to fetch banners'' 500
               (Some (''banners query failed: '' @ errorText e))
         | None \<Rightarrow> ReadRows (rows st)))"

definition tuningHandlerWith :: "string list \<Rightarrow> string \<Rightarrow> 'rows database \<Rightarrow> 'rows fetched" where
  "tuningHandlerWith queries method db =
     (if method \<noteq> ''GET'' then HttpError ''method not allowed'' 405 None
      else
        let st = runCandidates db queries in
        (case err st of
           Some e \<Rightarrow> HttpError ''failed to fetch tuning'' 500 None
         | None \<Rightarrow> ReadRows (rows st)))"

definition bannersHandler :: "string \<Rightarrow> 'rows database \<Rightarrow> 'rows fetched" where
  "bannersHandler = bannersHandlerWith bannersQueries"

definition tuningHandler :: "string \<Rightarrow> 'rows database \<Rightarrow> 'rows fetched" where
  "tuningHandler = tuningHandlerWith tuningQueries"

text \<open>Databases for the examples: \<open>sampleDB\<close> knows the queries \<open>Q2\<close> and \<open>Q3\<close> only.\<close>

definition sampleDB :: "string database" where
  "sampleDB query =
     (if query = ''Q2'' then Inr ''rows of Q2''
      else if query = ''Q3'' then Inr ''rows of Q3''
      else Inl (DBError (''cannot run '' @ query)))"


section \<open>Go values and the Go runtime\<close>

text \<open>
  The values of type \<^verbatim>\<open>any\<close> that the handlers meet. \<^verbatim>\<open>encoding/json\<close> decodes a document
  into nil, a bool, a float64, a string, a slice or a map; \<open>normalizeCRUDValue\<close> adds
  int64. A float64 is given by its exact value, a rational number (a decoded number is
  finite). A map is the list of its entries, with distinct keys.
\<close>

datatype any =
    GoNil
  | GoBool bool
  | GoFloat64 rat
  | GoString string
  | GoSlice "any list"
  | GoMap "(string \<times> any) list"
  | GoInt64 "64 word"

text \<open>
  What the model takes from the Go runtime and its library: \<^verbatim>\<open>json.Marshal\<close> (\<open>None\<close>
  when it returns an error), the document that \<^verbatim>\<open>json.Unmarshal\<close> reads from a text
  (\<open>None\<close> when the text is not valid JSON), and the value of the conversion
  \<^verbatim>\<open>int64(x)\<close> for a float64 \<open>x\<close> whose integer part does not fit: the language
  leaves that value to the implementation.
\<close>

record platform =
  jsonMarshal :: "any \<Rightarrow> string option"
  jsonUnmarshal :: "string \<Rightarrow> any option"
  int64OutOfRange :: "rat \<Rightarrow> 64 word"

text \<open>\<^verbatim>\<open>int64(x)\<close>: the fraction is discarded (truncation towards zero).\<close>

definition truncation :: "rat \<Rightarrow> int" where
  "truncation x = (if 0 \<le> x then \<lfloor>x\<rfloor> else \<lceil>x\<rceil>)"

definition int64_of_float64 :: "platform \<Rightarrow> rat \<Rightarrow> 64 word" where
  "int64_of_float64 pf x =
     (if - (2 ^ 63) \<le> truncation x \<and> truncation x < 2 ^ 63 then word_of_int (truncation x)
      else int64OutOfRange pf x)"

text \<open>
  \<^verbatim>\<open>float64(n)\<close> for an integer \<open>n\<close>: the nearest number with a significand of 53 bits,
  a tie going to the even significand.
\<close>

definition roundToFloat64 :: "int \<Rightarrow> int" where
  "roundToFloat64 n =
     (let a = \<bar>n\<bar> in
      if bitlen a \<le> 53 then n
      else
        let k = nat (bitlen a - 53);
            q = a div 2 ^ k;
            r = a mod 2 ^ k;
            q' = (if 2 ^ k < 2 * r \<or> (2 * r = 2 ^ k \<and> odd q) then q + 1 else q)
        in sgn n * (q' * 2 ^ k))"

definition float64_of_int64 :: "64 word \<Rightarrow> rat" where
  "float64_of_int64 w = of_int (roundToFloat64 (sint w))"

section \<open>Table access configuration\<close>

text \<open>
  A column set (\<^verbatim>\<open>map[string]struct{}\<close>, built by \<open>columnSet\<close>) is the list of its
  keys; the nil map is the empty list.
\<close>

record tableCRUDConfig =
  Path :: string
  Table :: string
  OrderBy :: string
  MutableColumns :: "string list"
  RequiredOnCreate :: "string list"
  JSONColumns :: "string list"
  TouchUpdatedAt :: bool

definition columnSet :: "string list \<Rightarrow> string list" where
  "columnSet values = remdups values"

text \<open>The list \<^verbatim>\<open>configs\<close> of \<open>registerAdminCRUDRoutes\<close>.\<close>

definition configs :: "tableCRUDConfig list" where
  "configs =
    [\<lparr>Path = ''/admin/banners'', Table = ''public.banners'',
      OrderBy = ''t.priority ASC, t.id ASC'',
      MutableColumns = columnSet [''section'', ''title'', ''image_url'', ''priority''],
      RequiredOnCreate = columnSet [''section'', ''title'', ''image_url''],
      JSONColumns = [], TouchUpdatedAt = False\<rparr>,
     \<lparr>Path = ''/admin/contact'', Table = ''public.contact'',
      OrderBy = ''t.id ASC'',
      MutableColumns = columnSet [''phone_number'', ''address'', ''description'', ''email'',
        ''work_schedule''],
      RequiredOnCreate = columnSet [],
      JSONColumns = [], TouchUpdatedAt = False\<rparr>,
     \<lparr>Path = ''/admin/contact_page'', Table = ''public.contact_page'',
      OrderBy = ''t.id ASC'',
      MutableColumns = columnSet [''id'', ''phone_number'', ''address'', ''description'',
        ''image_url''],
      RequiredOnCreate = columnSet [],
      JSONColumns = [], TouchUpdatedAt = False\<rparr>,
     \<lparr>Path = ''/admin/about_page'', Table = ''public.about_page'',
      OrderBy = ''t.id ASC'',
      MutableColumns = columnSet [''id'', ''banner_image_url'', ''banner_title'',
        ''history_description'', ''video_url'', ''mission_description'', ''mission_image_url''],
      RequiredOnCreate = columnSet [],
      JSONColumns = [], TouchUpdatedAt = False\<rparr>,
     \<lparr>Path = ''/admin/about_metrics'', Table = ''public.about_metrics'',
      OrderBy = ''t.position ASC, t.id ASC'',
      MutableColumns = columnSet [''about_id'', ''metric_key'', ''metric_value'',
        ''metric_label'', ''position''],
      RequiredOnCreate = columnSet [''metric_key'', ''metric_value'', ''metric_label''],
      JSONColumns = [], TouchUpdatedAt = False\<rparr>,
     \<lparr>Path = ''/admin/about_sections'', Table = ''public.about_sections'',
      OrderBy = ''t.position ASC, t.id ASC'',
      MutableColumns = columnSet [''about_id'', ''section_key'', ''title'', ''description'',
        ''position''],
      RequiredOnCreate = columnSet [''section_key'', ''title'', ''description''],
      JSONColumns = [], TouchUpdatedAt = False\<rparr>,
     \<lparr>Path = ''/admin/partners'', Table = ''public.partners'',
      OrderBy = ''t.position ASC, t.id ASC'',
      MutableColumns = columnSet [''name'', ''logo_url'', ''position''],
      RequiredOnCreate = columnSet [''logo_url''],
      JSONColumns = [], TouchUpdatedAt = False\<rparr>,
     \<lparr>Path = ''/admin/tuning'', Table = ''public.tuning'',
      OrderBy = ''t.created_at DESC, t.id DESC'',
      MutableColumns = columnSet [''brand'', ''model'', ''card_image_url'', ''full_image_url'',
        ''price'', ''description'', ''card_description'', ''full_description'',
        ''video_image_url'', ''video_link''],
      RequiredOnCreate = columnSet [],
      JSONColumns = columnSet [''full_image_url''], TouchUpdatedAt = True\<rparr>,
     \<lparr>Path = ''/admin/service_offerings'', Table = ''public.service_offerings'',
      OrderBy = ''t.position ASC, t.id ASC'',
      MutableColumns = columnSet [''service_type'', ''title'', ''detailed_description'',
        ''gallery_images'', ''price_text'', ''position''],
      RequiredOnCreate = columnSet [''service_type'', ''title''],
      JSONColumns = columnSet [''gallery_images''], TouchUpdatedAt = True\<rparr>,
     \<lparr>Path = ''/admin/privacy_sections'', Table = ''public.privacy_sections'',
      OrderBy = ''t.position ASC, t.id ASC'',
      MutableColumns = columnSet [''title'', ''description'', ''position''],
      RequiredOnCreate = columnSet [''title'', ''description''],
      JSONColumns = [], TouchUpdatedAt = False\<rparr>,
     \<lparr>Path = ''/admin/portfolio_items'', Table = ''public.portfolio_items'',
      OrderBy = ''t.created_at DESC, t.id DESC'',
      MutableColumns = columnSet [''brand'', ''title'', ''image_url'', ''description'',
        ''youtube_link''],
      RequiredOnCreate = columnSet [''title'', ''image_url''],
      JSONColumns = [], TouchUpdatedAt = False\<rparr>,
     \<lparr>Path = ''/admin/work_post'', Table = ''public.work_post'',
      OrderBy = ''t.created_at DESC, t.id DESC'',
      MutableColumns = columnSet [''title_model'', ''card_image_url'', ''full_image_url'',
        ''card_description'', ''work_list'', ''gallery_images'', ''full_description'',
        ''video_image_url'', ''video_link''],
      RequiredOnCreate = columnSet [''title_model''],
      JSONColumns = columnSet [''work_list'', ''gallery_images''], TouchUpdatedAt = True\<rparr>,
     \<lparr>Path = ''/admin/blog_posts'', Table = ''public.blog_posts'',
      OrderBy = ''t.created_at DESC, t.id DESC'',
      MutableColumns = columnSet [''title_model'', ''card_image_url'', ''full_image_url'',
        ''card_description'', ''work_list'', ''gallery_images'', ''full_description'',
        ''video_image_url'', ''video_link''],
      RequiredOnCreate = columnSet [''title_model''],
      JSONColumns = columnSet [''work_list'', ''gallery_images''], TouchUpdatedAt = True\<rparr>,
     \<lparr>Path = ''/admin/consultations'', Table = ''public.consultations'',
      OrderBy = ''t.created_at DESC, t.id DESC'',
      MutableColumns = columnSet [''first_name'', ''last_name'', ''phone'', ''service_type'',
        ''car_model'', ''preferred_call_time'', ''comments'', ''status''],
      RequiredOnCreate = columnSet [''first_name'', ''last_name'', ''phone'', ''service_type''],
      JSONColumns = [], TouchUpdatedAt = False\<rparr>]"

section \<open>Payload validation and value coercion\<close>

text \<open>
  A payload (\<^verbatim>\<open>map[string]any\<close>) is the list of its entries in the order in which
  \<^verbatim>\<open>range\<close> visits them, an order that Go does not fix; its keys are distinct.
  \<open>payloadGet\<close> is the index expression \<^verbatim>\<open>payload[key]\<close>. The result of the validation
  (\<^verbatim>\<open>map[string]string\<close>) is a list of entries too; \<open>AList.update\<close> is the assignment
  \<^verbatim>\<open>validationErrors[key] = message\<close>.
\<close>

type_synonym payload = "(string \<times> any) list"

definition payloadGet :: "payload \<Rightarrow> string \<Rightarrow> any" where
  "payloadGet payload key = (case map_of payload key of None \<Rightarrow> GoNil | Some v \<Rightarrow> v)"

definition isEmptyJSONValue :: "any \<Rightarrow> bool" where
  "isEmptyJSONValue v =
     (case v of
        GoNil \<Rightarrow> True
      | GoString text \<Rightarrow> TrimSpace text = []
      | _ \<Rightarrow> False)"

definition checkEditable :: "string list \<Rightarrow> string \<times> any \<Rightarrow> (string \<times> string) list \<Rightarrow> (string \<times> string) list" where
  "checkEditable allowedColumns entry validationErrors =
     (if fst entry \<notin> set allowedColumns
      then AList.update (fst entry) ''field is not editable'' validationErrors
      else validationErrors)"

definition checkRequired :: "payload \<Rightarrow> string \<Rightarrow> (string \<times> string) list \<Rightarrow> (string \<times> string) list" where
  "checkRequired payload key validationErrors =
     (case map_of payload key of
        None \<Rightarrow> AList.update key ''field is required'' validationErrors
      | Some v \<Rightarrow>
          if isEmptyJSONValue v then AList.update key ''field is required'' validationErrors
          else validationErrors)"

definition validateCRUDPayload :: "payload \<Rightarrow> string list \<Rightarrow> string list \<Rightarrow> (string \<times> string) list" where
  "validateCRUDPayload payload allowedColumns requiredColumns =
     fold (checkRequired payload) requiredColumns
       (fold (checkEditable allowedColumns) payload [])"

definition sortedMapKeys :: "payload \<Rightarrow> string list" where
  "sortedMapKeys values = sort (map fst values)"

definition normalizeCRUDValue :: "platform \<Rightarrow> string \<Rightarrow> any \<Rightarrow> tableCRUDConfig \<Rightarrow> string + any" where
  "normalizeCRUDValue pf column v cfg =
     (if column \<in> set (JSONColumns cfg) then
        (case jsonMarshal pf v of
           None \<Rightarrow> Inl (''invalid JSON value for '' @ column)
         | Some raw \<Rightarrow> Inr (GoString raw))
      else
        (case v of
           GoFloat64 number \<Rightarrow>
             if number = float64_of_int64 (int64_of_float64 pf number)
             then Inr (GoInt64 (int64_of_float64 pf number))
             else Inr v
         | _ \<Rightarrow> Inr v))"

definition quoteIdentifier :: "string \<Rightarrow> string" where
  "quoteIdentifier v = [CHR 0x22] @ ReplaceAll v (CHR 0x22) [CHR 0x22, CHR 0x22] @ [CHR 0x22]"

definition quoteTableName :: "string \<Rightarrow> string" where
  "quoteTableName v = Join (map (\<lambda>part. quoteIdentifier (TrimSpace part)) (Split v CHR ''.'')) ''.''"


section \<open>The admin CRUD handlers\<close>

text \<open>
  What \<open>writeJSON\<close> sends: the status code and one of the three bodies that the admin
  handlers build.
\<close>

datatype response =
    JSONError nat string
  | JSONValidation nat string "(string \<times> string) list"
  | JSONSuccess nat any

text \<open>
  \<^verbatim>\<open>a.DB.QueryRowContext(ctx, query, args...).Scan(&raw)\<close>: the statement and its
  arguments give an error or the bytes of the returned row.
\<close>

type_synonym rowDatabase = "string \<Rightarrow> any list \<Rightarrow> dbError + string"

text \<open>
  The loop of \<open>adminCreateOne\<close> over the sorted keys: it appends to \<^verbatim>\<open>columns\<close>,
  \<^verbatim>\<open>placeholders\<close> and \<^verbatim>\<open>args\<close>, and stops with the message of the first value that
  \<open>normalizeCRUDValue\<close> rejects.
\<close>

fun createLoop ::
  "platform \<Rightarrow> tableCRUDConfig \<Rightarrow> payload \<Rightarrow> string list \<Rightarrow> nat \<Rightarrow>
   string list \<times> string list \<times> any list \<Rightarrow> string + (string list \<times> string list \<times> any list)" where
  "createLoop pf cfg payload [] idx acc = Inr acc"
| "createLoop pf cfg payload (key # keys) idx (columns, placeholders, args) =
     (case normalizeCRUDValue pf key (payloadGet payload key) cfg of
        Inl msg \<Rightarrow> Inl msg
      | Inr v \<Rightarrow>
          createLoop pf cfg payload keys (idx + 1)
            (columns @ [quoteIdentifier key],
             placeholders @ [''$'' @ decimal (idx + 1)],
             args @ [v]))"

text \<open>
  \<open>adminCreateOne\<close> from the decoded payload to the statement it sends: a response when
  the payload is refused, else the query text and its arguments.
\<close>

definition adminCreateOne_statement ::
  "platform \<Rightarrow> tableCRUDConfig \<Rightarrow> payload \<Rightarrow> response + (string \<times> any list)" where
  "adminCreateOne_statement pf cfg payload =
     (let validationErrors =
            validateCRUDPayload payload (MutableColumns cfg) (RequiredOnCreate cfg) in
      if length validationErrors > 0 then
        Inl (JSONValidation 422 ''validation error'' validationErrors)
      else
        let keys = sortedMapKeys payload;
            quotedTable = quoteTableName (Table cfg) in
        if length keys = 0 then
          Inr (''WITH ins AS (INSERT INTO '' @ quotedTable @
               '' DEFAULT VALUES RETURNING *) SELECT to_jsonb(ins) FROM ins'', [])
        else
          (case createLoop pf cfg payload keys 0 ([], [], []) of
             Inl msg \<Rightarrow> Inl (JSONError 400 msg)
           | Inr (columns, placeholders, args) \<Rightarrow>
               Inr (''WITH ins AS (INSERT INTO '' @ quotedTable @ '' ('' @
                    Join columns '', '' @ '') VALUES ('' @ Join placeholders '', '' @
                    '') RETURNING *) SELECT to_jsonb(ins) FROM ins'', args)))"

definition adminCreateOne ::
  "platform \<Rightarrow> rowDatabase \<Rightarrow> tableCRUDConfig \<Rightarrow> payload \<Rightarrow> response" where
  "adminCreateOne pf db cfg payload =
     (case adminCreateOne_statement pf cfg payload of
        Inl refused \<Rightarrow> refused
      | Inr (query, args) \<Rightarrow>
          (case db query args of
             Inl e \<Rightarrow> JSONError 500 ''failed to create record''
           | Inr raw \<Rightarrow>
               (case jsonUnmarshal pf raw of
                  None \<Rightarrow> JSONError 500 ''failed to parse created record''
                | Some data \<Rightarrow> JSONSuccess 201 data)))"

text \<open>The loop of \<open>adminUpdateOne\<close> over the sorted keys.\<close>

fun updateLoop ::
  "platform \<Rightarrow> tableCRUDConfig \<Rightarrow> payload \<Rightarrow> string list \<Rightarrow> nat \<Rightarrow>
   string list \<times> any list \<Rightarrow> string + (string list \<times> any list)" where
  "updateLoop pf cfg payload [] idx acc = Inr acc"
| "updateLoop pf cfg payload (key # keys) idx (setClauses, args) =
     (case normalizeCRUDValue pf key (payloadGet payload key) cfg of
        Inl msg \<Rightarrow> Inl msg
      | Inr v \<Rightarrow>
          updateLoop pf cfg payload keys (idx + 1)
            (setClauses @ [quoteIdentifier key @ '' = $'' @ decimal (idx + 1)],
             args @ [v]))"

definition adminUpdateOne_statement ::
  "platform \<Rightarrow> tableCRUDConfig \<Rightarrow> 64 word \<Rightarrow> payload \<Rightarrow> response + (string \<times> any list)" where
  "adminUpdateOne_statement pf cfg ID payload =
     (let validationErrors = validateCRUDPayload payload (MutableColumns cfg) [] in
      if length validationErrors > 0 then
        Inl (JSONValidation 422 ''validation error'' validationErrors)
      else
        let keys = sortedMapKeys payload in
        if length keys = 0 \<and> \<not> TouchUpdatedAt cfg then Inl (JSONError 400 ''empty payload'')
        else
          (case updateLoop pf cfg payload keys 0 ([], []) of
             Inl msg \<Rightarrow> Inl (JSONError 400 msg)
           | Inr (setClauses0, args) \<Rightarrow>
               let setClauses =
                     (if TouchUpdatedAt cfg then setClauses0 @ [''updated_at = NOW()'']
                      else setClauses0)
               in Inr (''WITH upd AS (UPDATE '' @ quoteTableName (Table cfg) @ '' SET '' @
                       Join setClauses '', '' @ '' WHERE id = $'' @ decimal (length args + 1) @
                       '' RETURNING *) SELECT to_jsonb(upd) FROM upd'',
                       args @ [GoInt64 ID])))"

definition adminUpdateOne ::
  "platform \<Rightarrow> rowDatabase \<Rightarrow> tableCRUDConfig \<Rightarrow> 64 word \<Rightarrow> payload \<Rightarrow> response" where
  "adminUpdateOne pf db cfg ID payload =
     (case adminUpdateOne_statement pf cfg ID payload of
        Inl refused \<Rightarrow> refused
      | Inr (query, args) \<Rightarrow>
          (case db query args of
             Inl e \<Rightarrow>
               if e = ErrNoRows then JSONError 404 ''record not found''
               else JSONError 500 ''failed to update record''
           | Inr raw \<Rightarrow>
               (case jsonUnmarshal pf raw of
                  None \<Rightarrow> JSONError 500 ''failed to parse updated record''
                | Some data \<Rightarrow> JSONSuccess 200 data)))"

section \<open>Resource identifiers\<close>

text \<open>
  \<^verbatim>\<open>strconv.ParseInt(s, 10, 64)\<close>: an optional sign, then decimal digits read by the loop
  of \<^verbatim>\<open>strconv.ParseUint\<close>, which stops at the first byte that is no digit and at the
  first overflow of 64 bits.
\<close>

datatype idError = ErrSyntax | ErrRange | InvalidIDPath

definition isDigit :: "char \<Rightarrow> bool" where
  "isDigit c = (CHR ''0'' \<le> c \<and> c \<le> CHR ''9'')"

definition digitValue :: "char \<Rightarrow> int" where
  "digitValue c = of_char c - 48"

fun parseUintLoop :: "string \<Rightarrow> int \<Rightarrow> idError + int" where
  "parseUintLoop [] n = Inr n"
| "parseUintLoop (c # cs) n =
     (if \<not> isDigit c then Inl ErrSyntax
      else if n \<ge> (2 ^ 64 - 1) div 10 + 1 then Inl ErrRange
      else if n * 10 + digitValue c > 2 ^ 64 - 1 then Inl ErrRange
      else parseUintLoop cs (n * 10 + digitValue c))"

definition ParseUint :: "string \<Rightarrow> idError + int" where
  "ParseUint s = (if s = [] then Inl ErrSyntax else parseUintLoop s 0)"

definition ParseInt :: "string \<Rightarrow> idError + 64 word" where
  "ParseInt s0 =
     (if s0 = [] then Inl ErrSyntax
      else
        let neg = (hd s0 = CHR ''-'');
            s = (if hd s0 = CHR ''+'' \<or> hd s0 = CHR ''-'' then tl s0 else s0)
        in
          (case ParseUint s of
             Inl e \<Rightarrow> Inl e
           | Inr un \<Rightarrow>
               if \<not> neg \<and> un \<ge> 2 ^ 63 then Inl ErrRange
               else if neg \<and> un > 2 ^ 63 then Inl ErrRange
               else Inr (if neg then - word_of_int un else word_of_int un)))"

text \<open>
  The part of a request that the admin handlers read: the method, \<^verbatim>\<open>r.URL.Path\<close> and
  the decoded pairs of the query string, in their order (\<^verbatim>\<open>r.URL.Query().Get(key)\<close> is
  the first value of the key, or the empty string).
\<close>

record request =
  Method :: string
  URLPath :: string
  URLQuery :: "(string \<times> string) list"

definition Get :: "(string \<times> string) list \<Rightarrow> string \<Rightarrow> string" where
  "Get vs key = (case map_of vs key of None \<Rightarrow> [] | Some v \<Rightarrow> v)"

definition parseResourceID :: "request \<Rightarrow> string \<Rightarrow> idError + (64 word \<times> bool)" where
  "parseResourceID r basePath =
     (let idParam = TrimSpace (Get (URLQuery r) ''id'') in
      if idParam \<noteq> [] then
        (case ParseInt idParam of Inl e \<Rightarrow> Inl e | Inr ID \<Rightarrow> Inr (ID, True))
      else
        let base = TrimSuffix basePath ''/'';
            path = TrimSuffix (TrimSpace (URLPath r)) ''/''
        in
          if path = base then Inr (0, False)
          else if \<not> HasPrefix path (base @ ''/'') then Inr (0, False)
          else
            let idPart = TrimPrefix path (base @ ''/'') in
            if idPart = [] then Inr (0, False)
            else if Contains idPart ''/'' then Inl InvalidIDPath
            else (case ParseInt idPart of Inl e \<Rightarrow> Inl e | Inr ID \<Rightarrow> Inr (ID, True)))"

text \<open>
  The handler that \<open>makeAdminTableCRUDHandler\<close> returns, up to its choice of the
  operation.
\<close>

datatype operation =
    FetchOne "64 word"
  | FetchMany
  | CreateOne
  | UpdateOne "64 word"
  | DeleteOne "64 word"
  | Refuse response

definition makeAdminTableCRUDHandler :: "tableCRUDConfig \<Rightarrow> request \<Rightarrow> operation" where
  "makeAdminTableCRUDHandler cfg r =
     (case parseResourceID r (Path cfg) of
        Inl e \<Rightarrow> Refuse (JSONError 400 ''invalid id'')
      | Inr (ID, hasID) \<Rightarrow>
          if Method r = ''GET'' then (if hasID then FetchOne ID else FetchMany)
          else if Method r = ''POST'' then CreateOne
          else if Method r = ''PUT'' \<or> Method r = ''PATCH'' then
            (if \<not> hasID then Refuse (JSONError 400 ''id is required'') else UpdateOne ID)
          else if Method r = ''DELETE'' then
            (if \<not> hasID then Refuse (JSONError 400 ''id is required'') else DeleteOne ID)
          else Refuse (JSONError 405 ''method not allowed''))"


section \<open>Response projection\<close>

text \<open>
  \<open>uniqueNonEmpty\<close>: the loop over the values with its two variables, the slice
  \<^verbatim>\<open>result\<close> and the set \<^verbatim>\<open>seen\<close>.
\<close>

fun uniqueLoop :: "string list \<Rightarrow> string list \<Rightarrow> string set \<Rightarrow> string list" where
  "uniqueLoop [] result seen = result"
| "uniqueLoop (v # vs) result seen =
     (let clean = TrimSpace v in
      if clean = [] then uniqueLoop vs result seen
      else if clean \<in> seen then uniqueLoop vs result seen
      else uniqueLoop vs (result @ [clean]) (insert clean seen))"

definition uniqueNonEmpty :: "string list \<Rightarrow> string list" where
  "uniqueNonEmpty vs = uniqueLoop vs [] {}"

fun firstNonEmpty :: "string list \<Rightarrow> string" where
  "firstNonEmpty [] = []"
| "firstNonEmpty (v # vs) = (if TrimSpace v \<noteq> [] then v else firstNonEmpty vs)"

text \<open>A \<^verbatim>\<open>sql.NullString\<close> is an optional string.\<close>

definition nullStringValue :: "string option \<Rightarrow> string" where
  "nullStringValue v = (case v of None \<Rightarrow> [] | Some s \<Rightarrow> TrimSpace s)"

text \<open>
  \<^verbatim>\<open>json.Unmarshal(raw, &x)\<close> for a variable \<open>x\<close> of type \<^verbatim>\<open>[]string\<close>, \<^verbatim>\<open>[]any\<close> and
  \<^verbatim>\<open>string\<close>, as \<^verbatim>\<open>encoding/json\<close> documents it: the document must have the shape of
  the type; the JSON null sets a slice to nil and leaves a string as it is (empty, here).
  \<open>None\<close> is a returned error.
\<close>

fun stringElement :: "any \<Rightarrow> string option" where
  "stringElement (GoString s) = Some s"
| "stringElement GoNil = Some []"
| "stringElement _ = None"

fun stringElements :: "any list \<Rightarrow> string list option" where
  "stringElements [] = Some []"
| "stringElements (x # xs) =
     (case stringElement x of
        None \<Rightarrow> None
      | Some s \<Rightarrow> (case stringElements xs of None \<Rightarrow> None | Some ss \<Rightarrow> Some (s # ss)))"

definition unmarshalStrings :: "platform \<Rightarrow> string \<Rightarrow> string list option" where
  "unmarshalStrings pf raw =
     (case jsonUnmarshal pf raw of
        Some GoNil \<Rightarrow> Some []
      | Some (GoSlice xs) \<Rightarrow> stringElements xs
      | _ \<Rightarrow> None)"

definition unmarshalAnys :: "platform \<Rightarrow> string \<Rightarrow> any list option" where
  "unmarshalAnys pf raw =
     (case jsonUnmarshal pf raw of
        Some GoNil \<Rightarrow> Some []
      | Some (GoSlice xs) \<Rightarrow> Some xs
      | _ \<Rightarrow> None)"


text \<open>
  The inner loop of \<open>parsePerformedWorks\<close> over the keys of one object: the first key
  that holds a string which is not blank gives the text.
\<close>

fun workOfObject :: "(string \<times> any) list \<Rightarrow> string list \<Rightarrow> string option" where
  "workOfObject v [] = None"
| "workOfObject v (key # keys) =
     (case map_of v key of
        None \<Rightarrow> workOfObject v keys
      | Some (GoString text) \<Rightarrow>
          if TrimSpace text \<noteq> [] then Some text else workOfObject v keys
      | Some _ \<Rightarrow> workOfObject v keys)"

definition workKeys :: "string list" where
  "workKeys = [''step'', ''title'', ''name'', ''text'', ''description'']"

fun worksLoop :: "any list \<Rightarrow> string list \<Rightarrow> string list" where
  "worksLoop [] works = works"
| "worksLoop (GoString v # items) works = worksLoop items (works @ [v])"
| "worksLoop (GoMap v # items) works =
     (case workOfObject v workKeys of
        Some text \<Rightarrow> worksLoop items (works @ [text])
      | None \<Rightarrow> worksLoop items works)"
| "worksLoop (_ # items) works = worksLoop items works"

definition parsePerformedWorks :: "platform \<Rightarrow> string \<Rightarrow> string list" where
  "parsePerformedWorks pf raw =
     (if length raw = 0 then []
      else
        (case unmarshalStrings pf raw of
           Some asStrings \<Rightarrow> uniqueNonEmpty asStrings
         | None \<Rightarrow>
             (case unmarshalAnys pf raw of
                None \<Rightarrow> []
              | Some asAny \<Rightarrow> uniqueNonEmpty (worksLoop asAny []))))"



text \<open>
  The fields of a work post that \<open>workPostHandler\<close> derives from a scanned row: the image
  URL, the performed works and the gallery images.
\<close>

record workPostRow =
  cardImageURL :: "string option"
  fullImageURL :: "string option"
  videoImageURL :: "string option"
  workList :: string
  galleryImagesRaw :: string

definition postImageURL :: "workPostRow \<Rightarrow> string" where
  "postImageURL row =
     firstNonEmpty [nullStringValue (cardImageURL row), nullStringValue (fullImageURL row),
       nullStringValue (videoImageURL row)]"





section \<open>Notions of the specification\<close>

text \<open>
  The specification's words, as definitions to compare the code with. A collection is
  deduplicated, order preserved and the first occurrence winning, by \<open>dedup\<close>; \<open>cleaned\<close>
  trims every entry and drops the blank ones.
\<close>

fun dedup :: "'a list \<Rightarrow> 'a list" where
  "dedup [] = []"
| "dedup (x # xs) = x # filter (\<lambda>y. y \<noteq> x) (dedup xs)"

definition cleaned :: "string list \<Rightarrow> string list" where
  "cleaned vs = filter (\<lambda>s. s \<noteq> []) (map TrimSpace vs)"

text \<open>
  The string under a key of an object, when it is a string and not blank; the first such
  string along a list of keys; and what one item of a works array contributes.
\<close>

definition nonBlankString :: "(string \<times> any) list \<Rightarrow> string \<Rightarrow> string option" where
  "nonBlankString v key =
     (case map_of v key of
        Some (GoString text) \<Rightarrow> if TrimSpace text \<noteq> [] then Some text else None
      | _ \<Rightarrow> None)"

definition firstNonBlank :: "(string \<times> any) list \<Rightarrow> string list \<Rightarrow> string option" where
  "firstNonBlank v keys =
     (case filter (\<lambda>key. nonBlankString v key \<noteq> None) keys of
        [] \<Rightarrow> None
      | key # _ \<Rightarrow> nonBlankString v key)"

definition workOfItem :: "any \<Rightarrow> string list" where
  "workOfItem item =
     (case item of
        GoString s \<Rightarrow> [s]
      | GoMap v \<Rightarrow> (case firstNonBlank v workKeys of Some text \<Rightarrow> [text] | None \<Rightarrow> [])
      | _ \<Rightarrow> [])"



text \<open>
  A key of a payload is missing or holds an empty value: null, or a string that is empty
  after trimming white space.
\<close>

definition missingOrEmpty :: "payload \<Rightarrow> string \<Rightarrow> bool" where
  "missingOrEmpty payload key =
     (case map_of payload key of
        None \<Rightarrow> True
      | Some GoNil \<Rightarrow> True
      | Some (GoString text) \<Rightarrow> TrimSpace text = []
      | Some _ \<Rightarrow> False)"

text \<open>The keys that a payload holds.\<close>

definition payloadKeys :: "payload \<Rightarrow> string set" where
  "payloadKeys payload = fst ` set payload"

text \<open>
  An identifier is the text of an integer: an optional sign, then one or more decimal
  digits.
\<close>

definition integerText :: "string \<Rightarrow> bool" where
  "integerText s =
     (let ds = (if s \<noteq> [] \<and> (hd s = CHR ''+'' \<or> hd s = CHR ''-'') then tl s else s)
      in ds \<noteq> [] \<and> list_all isDigit ds)"

text \<open>
  The two places of an identifier in a request: the query parameter \<open>id\<close>, white space
  trimmed, and the trailing segment of the path after the base path of the resource
  (empty when the path has none).
\<close>

definition queryID :: "request \<Rightarrow> string" where
  "queryID r = TrimSpace (Get (URLQuery r) ''id'')"

definition trailingSegment :: "request \<Rightarrow> string \<Rightarrow> string" where
  "trailingSegment r basePath =
     (let base = TrimSuffix basePath ''/'';
          path = TrimSuffix (TrimSpace (URLPath r)) ''/''
      in if prefix (base @ ''/'') path then drop (length base + 1) path else [])"

definition parsedID :: "string \<Rightarrow> idError + (64 word \<times> bool)" where
  "parsedID s = (case ParseInt s of Inl e \<Rightarrow> Inl e | Inr n \<Rightarrow> Inr (n, True))"

text \<open>
  The statement over a given list of columns: the insert names the quoted columns and
  the placeholders \<open>$1\<close>, \<open>$2\<close>, ... in the order of the list; the update assigns the
  placeholders to the quoted columns in that order, then touches \<open>updated_at\<close> when the
  descriptor asks for it.
\<close>

definition placeholder :: "nat \<Rightarrow> string" where
  "placeholder i = ''$'' @ decimal (i + 1)"

definition insertStatement :: "tableCRUDConfig \<Rightarrow> string list \<Rightarrow> string" where
  "insertStatement cfg keys =
     (if keys = [] then
        ''WITH ins AS (INSERT INTO '' @ quoteTableName (Table cfg) @
        '' DEFAULT VALUES RETURNING *) SELECT to_jsonb(ins) FROM ins''
      else
        ''WITH ins AS (INSERT INTO '' @ quoteTableName (Table cfg) @ '' ('' @
        Join (map quoteIdentifier keys) '', '' @ '') VALUES ('' @
        Join (map placeholder [0..<length keys]) '', '' @
        '') RETURNING *) SELECT to_jsonb(ins) FROM ins'')"

definition updateStatement :: "tableCRUDConfig \<Rightarrow> string list \<Rightarrow> string" where
  "updateStatement cfg keys =
     ''WITH upd AS (UPDATE '' @ quoteTableName (Table cfg) @ '' SET '' @
     Join (map (\<lambda>(i, key). quoteIdentifier key @ '' = '' @ placeholder i) (enumerate 0 keys) @
           (if TouchUpdatedAt cfg then [''updated_at = NOW()''] else [])) '', '' @
     '' WHERE id = '' @ placeholder (length keys) @
     '' RETURNING *) SELECT to_jsonb(upd) FROM upd''"

definition normalized :: "platform \<Rightarrow> tableCRUDConfig \<Rightarrow> payload \<Rightarrow> string list \<Rightarrow> (string + any) list" where
  "normalized pf cfg payload keys =
     map (\<lambda>key. normalizeCRUDValue pf key (payloadGet payload key) cfg) keys"

section \<open>Sample inputs\<close>

text \<open>
  The platform of the examples: \<^verbatim>\<open>json.Unmarshal\<close> and \<^verbatim>\<open>json.Marshal\<close> at the
  documents that the examples use, and the conversion of amd64, where \<^verbatim>\<open>int64(x)\<close> of a
  float64 out of range is the least int64.
\<close>

definition jsonQuote :: "string \<Rightarrow> string" where
  "jsonQuote s = [CHR 0x22] @ s @ [CHR 0x22]"

definition docDuplicates :: string where
  "docDuplicates = ''['' @ jsonQuote ''a'' @ '','' @ jsonQuote ''a'' @ '']''"

definition docWorks :: string where
  "docWorks = ''[{'' @ jsonQuote ''step'' @ '':'' @ jsonQuote ''Diagnostics'' @ ''},{'' @
     jsonQuote ''title'' @ '':'' @ jsonQuote ''Calibration'' @ ''}]''"

definition docMixed :: string where
  "docMixed = ''['' @ jsonQuote ''a'' @ '',1]''"

definition docGallery :: string where
  "docGallery = ''['' @ jsonQuote '' b '' @ '','' @ jsonQuote ''a'' @ '','' @ jsonQuote [] @
     '','' @ jsonQuote ''b'' @ '']''"

definition docRow :: string where
  "docRow = ''{'' @ jsonQuote ''id'' @ '':5}''"

definition samplePlatform :: platform where
  "samplePlatform =
     \<lparr>jsonMarshal = map_of [(GoSlice [GoString ''a''], ''['' @ jsonQuote ''a'' @ '']'')],
      jsonUnmarshal = map_of
        [(docDuplicates, GoSlice [GoString ''a'', GoString ''a'']),
         (docWorks, GoSlice [GoMap [(''step'', GoString ''Diagnostics'')],
                             GoMap [(''title'', GoString ''Calibration'')]]),
         (docMixed, GoSlice [GoString ''a'', GoFloat64 1]),
         (docGallery, GoSlice [GoString '' b '', GoString ''a'', GoString [], GoString ''b'']),
         (docRow, GoMap [(''id'', GoFloat64 5)])],
      int64OutOfRange = (\<lambda>x. - (2 ^ 63))\<rparr>"

text \<open>
  The same platform with the saturating conversion of arm64: \<^verbatim>\<open>int64(x)\<close> of a float64
  out of range is the nearest int64.
\<close>

definition saturatingPlatform :: platform where
  "saturatingPlatform =
     samplePlatform\<lparr>int64OutOfRange := (\<lambda>x. if x < 0 then - (2 ^ 63) else 2 ^ 63 - 1)\<rparr>"





section \<open>Properties of the string functions\<close>









lemma TrimSpace_Nil: "TrimSpace [] = []"
  by (simp add: TrimSpace_def TrimLeft.simps [of "[]"] TrimRight.simps [of "[]"] leadingSpace_def trailingSpace_def unicodeSpace_def)



lemma uniqueLoop_dedup:
  "uniqueLoop vs result seen = result @ filter (\<lambda>y. y \<notin> seen) (dedup (cleaned vs))"
proof (induction vs arbitrary: result seen)
  case Nil
  then show ?case by (simp add: cleaned_def)
next
  case (Cons v vs)
  have conj: "filter (\<lambda>y. y \<notin> insert (TrimSpace v) seen) xs =
      filter (\<lambda>y. y \<notin> seen) (filter (\<lambda>y. y \<noteq> TrimSpace v) xs)" for xs
    by (induction xs) auto
  have absorb: "TrimSpace v \<in> seen \<Longrightarrow>
      filter (\<lambda>y. y \<notin> seen) (filter (\<lambda>y. y \<noteq> TrimSpace v) xs) = filter (\<lambda>y. y \<notin> seen) xs" for xs
    by (induction xs) auto
  show ?case
    using Cons.IH conj absorb by (auto simp: cleaned_def Let_def)
qed

lemma uniqueNonEmpty_dedup: "uniqueNonEmpty vs = dedup (cleaned vs)"
  by (simp add: uniqueNonEmpty_def uniqueLoop_dedup)




section \<open>Properties of the cascading query executor\<close>

lemma queryLoop_first_success:
  assumes "\<forall>p \<in> set pre. \<exists>e. db p = Inl e" and "db q = Inr rs"
  shows "queryLoop db (pre @ q # post) st =
           \<lparr>rows = Some rs, err = None, executed = executed st @ pre @ [q]\<rparr>"
  using assms
proof (induction pre arbitrary: st)
  case Nil
  then show ?case by simp
next
  case (Cons p pre)
  from Cons.prems(1) obtain e where "db p = Inl e" by auto
  with Cons show ?case by simp
qed

lemma queryLoop_all_fail:
  assumes "queries \<noteq> []" and "\<forall>q \<in> set queries. \<exists>e. db q = Inl e"
  shows "\<exists>e. db (last queries) = Inl e \<and>
           queryLoop db queries st =
             \<lparr>rows = None, err = Some e, executed = executed st @ queries\<rparr>"
  using assms
proof (induction queries arbitrary: st)
  case Nil
  then show ?case by simp
next
  case (Cons q queries)
  from Cons.prems(2) obtain e where e: "db q = Inl e" by auto
  show ?case
  proof (cases "queries = []")
    case True
    with e show ?thesis by simp
  next
    case False
    let ?st = "\<lparr>rows = None, err = Some e, executed = executed st @ [q]\<rparr>"
    from False Cons.prems(2)
    obtain e' where "db (last queries) = Inl e'"
      and "queryLoop db queries ?st =
             \<lparr>rows = None, err = Some e', executed = executed ?st @ queries\<rparr>"
      using Cons.IH [of ?st] by auto
    with e False show ?thesis by simp
  qed
qed

text \<open>
  Claim C1. For a non-empty list of candidates the executor sends the candidates in list
  order. When some candidate runs without error, the handler holds the result set of the
  first such candidate, and the queries sent are exactly the candidates up to and including
  that one: no later candidate is executed. When every candidate fails, all candidates
  have been sent, the error held is that of the last candidate, and the client gets the
  generic message with status 500.
\<close>

theorem cascade_first_success_or_last_error:
  fixes db :: "'rows database"
  assumes "queries \<noteq> []"
  shows "(\<forall>pre q post rs.
            queries = pre @ q # post \<and> (\<forall>p \<in> set pre. \<exists>e. db p = Inl e) \<and> db q = Inr rs \<longrightarrow>
              runCandidates db queries = \<lparr>rows = Some rs, err = None, executed = pre @ [q]\<rparr> \<and>
              bannersHandlerWith queries ''GET'' db = ReadRows (Some rs) \<and>
              tuningHandlerWith queries ''GET'' db = ReadRows (Some rs)) \<and>
         ((\<forall>q \<in> set queries. \<exists>e. db q = Inl e) \<longrightarrow>
            (\<exists>e. db (last queries) = Inl e \<and>
              runCandidates db queries = \<lparr>rows = None, err = Some e, executed = queries\<rparr> \<and>
              bannersHandlerWith queries ''GET'' db =
                HttpError ''failed to fetch banners'' 500
                  (Some (''banners query failed: '' @ errorText e)) \<and>
              tuningHandlerWith queries ''GET'' db =
                HttpError ''failed to fetch tuning'' 500 None))"
proof (intro conjI allI impI)
  fix pre q post rs
  assume h: "queries = pre @ q # post \<and> (\<forall>p \<in> set pre. \<exists>e. db p = Inl e) \<and> db q = Inr rs"
  then have run: "runCandidates db queries = \<lparr>rows = Some rs, err = None, executed = pre @ [q]\<rparr>"
    using queryLoop_first_success [of pre db q rs post cascadeStart]
    by (simp add: runCandidates_def cascadeStart_def)
  then show "runCandidates db queries = \<lparr>rows = Some rs, err = None, executed = pre @ [q]\<rparr>" .
  from run show "bannersHandlerWith queries ''GET'' db = ReadRows (Some rs)"
    by (simp add: bannersHandlerWith_def)
  from run show "tuningHandlerWith queries ''GET'' db = ReadRows (Some rs)"
    by (simp add: tuningHandlerWith_def)
next
  assume "\<forall>q \<in> set queries. \<exists>e. db q = Inl e"
  with assms obtain e where e: "db (last queries) = Inl e"
    and run: "runCandidates db queries = \<lparr>rows = None, err = Some e, executed = queries\<rparr>"
    using queryLoop_all_fail [of queries db cascadeStart]
    by (auto simp: runCandidates_def cascadeStart_def)
  from run have "bannersHandlerWith queries ''GET'' db =
      HttpError ''failed to fetch banners'' 500 (Some (''banners query failed: '' @ errorText e))"
    by (simp add: bannersHandlerWith_def)
  moreover from run have "tuningHandlerWith queries ''GET'' db =
      HttpError ''failed to fetch tuning'' 500 None"
    by (simp add: tuningHandlerWith_def)
  ultimately show "\<exists>e. db (last queries) = Inl e \<and>
      runCandidates db queries = \<lparr>rows = None, err = Some e, executed = queries\<rparr> \<and>
      bannersHandlerWith queries ''GET'' db =
        HttpError ''failed to fetch banners'' 500
          (Some (''banners query failed: '' @ errorText e)) \<and>
      tuningHandlerWith queries ''GET'' db = HttpError ''failed to fetch tuning'' 500 None"
    using e run by blast
qed

theorem cascade_first_success_or_last_error_witness:
  "runCandidates sampleDB [''Q1'', ''Q2'', ''Q3''] =
     \<lparr>rows = Some ''rows of Q2'', err = None, executed = [''Q1'', ''Q2'']\<rparr> \<and>
   bannersHandlerWith [''Q1'', ''Q2'', ''Q3''] ''GET'' sampleDB = ReadRows (Some ''rows of Q2'') \<and>
   runCandidates sampleDB [''Q0'', ''Q1''] =
     \<lparr>rows = None, err = Some (DBError ''cannot run Q1''), executed = [''Q0'', ''Q1'']\<rparr> \<and>
   tuningHandlerWith [''Q0'', ''Q1''] ''GET'' sampleDB =
     HttpError ''failed to fetch tuning'' 500 None"
proof -
  have ne: "[''Q1'', ''Q2'', ''Q3''] \<noteq> []" and ne': "[''Q0'', ''Q1''] \<noteq> []" by simp_all
  have split: "[''Q1'', ''Q2'', ''Q3''] = [''Q1''] @ ''Q2'' # [''Q3'']" by simp
  have fails: "\<forall>p \<in> set [''Q1'']. \<exists>e. sampleDB p = Inl e" by (simp add: sampleDB_def)
  have ok: "sampleDB ''Q2'' = Inr ''rows of Q2''" by (simp add: sampleDB_def)
  have allfail: "\<forall>q \<in> set [''Q0'', ''Q1'']. \<exists>e. sampleDB q = Inl e" by (simp add: sampleDB_def)
  have last: "sampleDB (last [''Q0'', ''Q1'']) = Inl (DBError ''cannot run Q1'')"
    by (simp add: sampleDB_def)
  from cascade_first_success_or_last_error [OF ne, of sampleDB] split fails ok
  have first: "runCandidates sampleDB [''Q1'', ''Q2'', ''Q3''] =
       \<lparr>rows = Some ''rows of Q2'', err = None, executed = [''Q1''] @ [''Q2'']\<rparr> \<and>
     bannersHandlerWith [''Q1'', ''Q2'', ''Q3''] ''GET'' sampleDB = ReadRows (Some ''rows of Q2'')"
    by blast
  from cascade_first_success_or_last_error [OF ne', of sampleDB] allfail
  obtain e where "sampleDB (last [''Q0'', ''Q1'']) = Inl e"
    and "runCandidates sampleDB [''Q0'', ''Q1''] =
       \<lparr>rows = None, err = Some e, executed = [''Q0'', ''Q1'']\<rparr>"
    and "tuningHandlerWith [''Q0'', ''Q1''] ''GET'' sampleDB =
       HttpError ''failed to fetch tuning'' 500 None"
    by blast
  with last first show ?thesis by simp
qed

text \<open>
  The lists of candidates are literals of the two handlers: two queries for the banners,
  eight for the tuning items. No handler runs the loop on an empty list.
\<close>

lemma candidate_lists_nonempty:
  "length bannersQueries = 2 \<and> length tuningQueries = 8"
  by (simp add: bannersQueries_def tuningQueries_def)

section \<open>Properties of the response projection\<close>


lemma workOfObject_firstNonBlank: "workOfObject v keys = firstNonBlank v keys"
proof (induction keys)
  case Nil
  then show ?case by (simp add: firstNonBlank_def)
next
  case (Cons key keys)
  then show ?case
    by (auto simp: firstNonBlank_def nonBlankString_def split: option.splits any.splits)
qed

lemma worksLoop_workOfItem: "worksLoop items works = works @ concat (map workOfItem items)"
proof (induction items works rule: worksLoop.induct)
  case (1 works)
  then show ?case by simp
next
  case (2 v items works)
  then show ?case by (simp add: workOfItem_def)
next
  case (3 v items works)
  then show ?case
    by (simp add: workOfItem_def workOfObject_firstNonBlank split: option.splits)
qed (simp_all add: workOfItem_def)

lemma cleaned_append: "cleaned (xs @ ys) = cleaned xs @ cleaned ys"
  by (simp add: cleaned_def)

lemma stringElements_cleaned:
  "stringElements items = Some ss \<Longrightarrow> cleaned ss = cleaned (concat (map workOfItem items))"
proof (induction items arbitrary: ss)
  case Nil
  then show ?case by simp
next
  case (Cons x items)
  from Cons.prems obtain s ss' where s: "stringElement x = Some s"
    and ss': "stringElements items = Some ss'" and ss: "ss = s # ss'"
    by (auto split: option.splits)
  from Cons.IH [OF ss'] have ih: "cleaned ss' = cleaned (concat (map workOfItem items))" .
  from s have "cleaned [s] = cleaned (workOfItem x)"
    by (cases x) (auto simp: cleaned_def workOfItem_def TrimSpace_Nil)
  moreover have "cleaned ss = cleaned [s] @ cleaned ss'"
    using ss cleaned_append [of "[s]" ss'] by simp
  ultimately show ?case using ih by (simp add: cleaned_append)
qed

lemma parsePerformedWorks_spec:
  "parsePerformedWorks pf raw =
     (if raw = [] then []
      else
        (case jsonUnmarshal pf raw of
           Some (GoSlice items) \<Rightarrow> dedup (cleaned (concat (map workOfItem items)))
         | _ \<Rightarrow> []))"
proof (cases "raw = []")
  case True
  then show ?thesis by (simp add: parsePerformedWorks_def)
next
  case False
  show ?thesis
  proof (cases "jsonUnmarshal pf raw")
    case None
    with False show ?thesis
      by (simp add: parsePerformedWorks_def unmarshalStrings_def unmarshalAnys_def)
  next
    case (Some doc)
    show ?thesis
    proof (cases doc)
      case (GoSlice items)
      show ?thesis
      proof (cases "stringElements items")
        case None
        with False Some GoSlice show ?thesis
          by (simp add: parsePerformedWorks_def unmarshalStrings_def unmarshalAnys_def
              uniqueNonEmpty_dedup worksLoop_workOfItem)
      next
        case (Some ss)
        with False \<open>jsonUnmarshal pf raw = Some doc\<close> GoSlice stringElements_cleaned [OF Some]
        show ?thesis
          by (simp add: parsePerformedWorks_def unmarshalStrings_def uniqueNonEmpty_dedup)
      qed
    next
      case GoNil
      with False Some show ?thesis
        by (simp add: parsePerformedWorks_def unmarshalStrings_def uniqueNonEmpty_dedup cleaned_def)
    qed (use False Some in \<open>simp_all add: parsePerformedWorks_def unmarshalStrings_def unmarshalAnys_def\<close>)
  qed
qed





text \<open>
  Claim C4, as stated: an input that is neither a JSON array of strings nor a JSON array
  of objects yields the empty collection. The array \<^verbatim>\<open>["a",1]\<close> is neither and yields
  its string.
\<close>

theorem performed_works_counterexample:
  "jsonUnmarshal samplePlatform docMixed = Some (GoSlice [GoString ''a'', GoFloat64 1]) \<and>
   parsePerformedWorks samplePlatform docMixed = [''a'']"
  by code_simp

text \<open>
  Claim C4, amended. For every input, the performed works are read from a JSON array
  item by item: a string contributes itself, an object contributes the first string that
  is not blank among its keys step, title, name, text and description, in that order of
  priority, and any other item contributes nothing; the contributions are trimmed, the
  blank ones dropped and duplicates removed. The empty input, a text that is not valid
  JSON and a document that is not an array yield the empty collection, never an error.
\<close>

theorem performed_works_parsing:
  "workKeys = [''step'', ''title'', ''name'', ''text'', ''description''] \<and>
   parsePerformedWorks pf raw =
     (if raw = [] then []
      else
        (case jsonUnmarshal pf raw of
           Some (GoSlice items) \<Rightarrow> dedup (cleaned (concat (map workOfItem items)))
         | _ \<Rightarrow> []))"
  using parsePerformedWorks_spec [of pf raw] by (simp add: workKeys_def)

theorem performed_works_parsing_witness:
  "parsePerformedWorks samplePlatform docWorks = [''Diagnostics'', ''Calibration''] \<and>
   parsePerformedWorks samplePlatform ''not json'' = []"
proof -
  have "dedup (cleaned (concat (map workOfItem
          [GoMap [(''step'', GoString ''Diagnostics'')],
           GoMap [(''title'', GoString ''Calibration'')]]))) =
        [''Diagnostics'', ''Calibration'']"
    by code_simp
  moreover have "jsonUnmarshal samplePlatform docWorks =
      Some (GoSlice [GoMap [(''step'', GoString ''Diagnostics'')],
                     GoMap [(''title'', GoString ''Calibration'')]])"
    by code_simp
  moreover have "jsonUnmarshal samplePlatform ''not json'' = None"
    by code_simp
  moreover have "docWorks \<noteq> []" by code_simp
  ultimately show ?thesis
    using performed_works_parsing [of samplePlatform docWorks]
      performed_works_parsing [of samplePlatform "''not json''"]
    by simp
qed

section \<open>Properties of the table access configuration\<close>


lemma fold_checkEditable:
  "map_of (fold (checkEditable allowed) payload acc) key =
     (if key \<in> payloadKeys payload \<and> key \<notin> set allowed then Some ''field is not editable''
      else map_of acc key)"
proof (induction payload arbitrary: acc)
  case Nil
  then show ?case by (simp add: payloadKeys_def)
next
  case (Cons entry payload)
  then show ?case
    by (auto simp: checkEditable_def payloadKeys_def update_conv')
qed

lemma fold_checkRequired:
  "map_of (fold (checkRequired payload) required acc) key =
     (if key \<in> set required \<and> missingOrEmpty payload key then Some ''field is required''
      else map_of acc key)"
proof (induction required arbitrary: acc)
  case Nil
  then show ?case by simp
next
  case (Cons column required)
  have step: "map_of (checkRequired payload column acc) key =
      (if key = column \<and> missingOrEmpty payload key then Some ''field is required''
       else map_of acc key)"
    by (auto simp: checkRequired_def missingOrEmpty_def isEmptyJSONValue_def update_conv'
        split: option.splits any.splits)
  show ?case
    using Cons.IH [of "checkRequired payload column acc"] step by auto
qed

lemma validateCRUDPayload_lookup:
  "map_of (validateCRUDPayload payload allowed required) key =
     (if key \<in> set required \<and> missingOrEmpty payload key then Some ''field is required''
      else if key \<in> payloadKeys payload \<and> key \<notin> set allowed then Some ''field is not editable''
      else None)"
  by (simp add: validateCRUDPayload_def fold_checkRequired fold_checkEditable)


text \<open>
  Claim C8. In every descriptor of the registry of \<open>registerAdminCRUDRoutes\<close> the
  required-on-create columns are among the mutable columns.
\<close>

theorem registry_required_subset_mutable:
  "\<forall>cfg \<in> set configs. set (RequiredOnCreate cfg) \<subseteq> set (MutableColumns cfg)"
  by (simp add: configs_def columnSet_def)

theorem registry_required_subset_mutable_witness:
  "Path (configs ! 0) = ''/admin/banners'' \<and>
   RequiredOnCreate (configs ! 0) = [''section'', ''title'', ''image_url''] \<and>
   set (RequiredOnCreate (configs ! 0)) \<subseteq> set (MutableColumns (configs ! 0))"
proof -
  have "configs ! 0 \<in> set configs" by (simp add: configs_def)
  with registry_required_subset_mutable
  have "set (RequiredOnCreate (configs ! 0)) \<subseteq> set (MutableColumns (configs ! 0))"
    by blast
  moreover have "Path (configs ! 0) = ''/admin/banners''"
    and "RequiredOnCreate (configs ! 0) = [''section'', ''title'', ''image_url'']"
    by (simp_all add: configs_def columnSet_def)
  ultimately show ?thesis by blast
qed

section \<open>Properties of the resource identifier\<close>


lemma parseUintLoop_digits: "parseUintLoop s n = Inr m \<Longrightarrow> list_all isDigit s"
  by (induction s arbitrary: n) (auto split: if_splits)

lemma ParseInt_integerText: "ParseInt s = Inr n \<Longrightarrow> integerText s"
proof -
  assume ok: "ParseInt s = Inr n"
  then have ne: "s \<noteq> []" by (auto simp: ParseInt_def)
  let ?ds = "if hd s = CHR ''+'' \<or> hd s = CHR ''-'' then tl s else s"
  from ok ne obtain un where un: "ParseUint ?ds = Inr un"
    by (auto simp: ParseInt_def Let_def split: sum.splits if_splits)
  then have "?ds \<noteq> []" and "list_all isDigit ?ds"
    using parseUintLoop_digits [of ?ds 0 un]
    by (auto simp: ParseUint_def split: if_splits)
  with ne show ?thesis by (simp add: integerText_def)
qed

lemma parseResourceID_spec:
  "parseResourceID r basePath =
     (if queryID r \<noteq> [] then parsedID (queryID r)
      else if trailingSegment r basePath = [] then Inr (0, False)
      else if Contains (trailingSegment r basePath) ''/'' then Inl InvalidIDPath
      else parsedID (trailingSegment r basePath))"
  by (auto simp: parseResourceID_def queryID_def trailingSegment_def parsedID_def Let_def
      HasPrefix_def TrimPrefix_def)


text \<open>
  Claim C6, as stated: an id query parameter that is present and not empty takes
  precedence over the path, and is an error when it is no integer. A parameter of one
  space is present, not empty and no integer, and the identifier comes from the path.
\<close>

theorem blank_query_id_counterexample:
  "Get (URLQuery \<lparr>Method = ''GET'', URLPath = ''/admin/banners/5'', URLQuery = [(''id'', '' '')]\<rparr>)
     ''id'' = '' '' \<and>
   ParseInt '' '' = Inl ErrSyntax \<and>
   parseResourceID
     \<lparr>Method = ''GET'', URLPath = ''/admin/banners/5'', URLQuery = [(''id'', '' '')]\<rparr>
     ''/admin/banners'' = Inr (5, True)"
  by code_simp

text \<open>
  Claim C6, amended. The id query parameter, when it is not empty after trimming white
  space, decides alone, whatever the path. Otherwise the trailing path segment decides:
  none means the collection case (no identifier), a segment with a further slash is an
  error, and any other segment is parsed. A text that is no integer is an error from
  either place, and every error makes the handler answer 400 "invalid id".
\<close>

theorem resource_identifier:
  "parseResourceID r basePath =
     (if queryID r \<noteq> [] then parsedID (queryID r)
      else if trailingSegment r basePath = [] then Inr (0, False)
      else if Contains (trailingSegment r basePath) ''/'' then Inl InvalidIDPath
      else parsedID (trailingSegment r basePath)) \<and>
   (\<not> integerText s \<longrightarrow> (\<exists>e. parsedID s = Inl e)) \<and>
   ((\<exists>e. parseResourceID r (Path cfg) = Inl e) \<longrightarrow>
      makeAdminTableCRUDHandler cfg r = Refuse (JSONError 400 ''invalid id''))"
proof -
  have "\<exists>e. parsedID s = Inl e" if "\<not> integerText s"
  proof (cases "ParseInt s")
    case (Inl e)
    then show ?thesis by (simp add: parsedID_def)
  next
    case (Inr n)
    with that ParseInt_integerText show ?thesis by blast
  qed
  moreover have "makeAdminTableCRUDHandler cfg r = Refuse (JSONError 400 ''invalid id'')"
    if "\<exists>e. parseResourceID r (Path cfg) = Inl e"
    using that by (auto simp: makeAdminTableCRUDHandler_def)
  ultimately show ?thesis
    using parseResourceID_spec [of r basePath] by blast
qed

theorem resource_identifier_witness:
  "parseResourceID
     \<lparr>Method = ''GET'', URLPath = ''/admin/banners/5'', URLQuery = [(''id'', '' 7 '')]\<rparr>
     ''/admin/banners'' = Inr (7, True) \<and>
   parseResourceID \<lparr>Method = ''GET'', URLPath = ''/admin/banners/1/2'', URLQuery = []\<rparr>
     ''/admin/banners'' = Inl InvalidIDPath \<and>
   parseResourceID \<lparr>Method = ''GET'', URLPath = ''/admin/banners/'', URLQuery = []\<rparr>
     ''/admin/banners'' = Inr (0, False) \<and>
   (\<exists>e. parsedID ''abc'' = Inl e) \<and>
   makeAdminTableCRUDHandler (configs ! 0)
     \<lparr>Method = ''GET'', URLPath = ''/admin/banners/abc'', URLQuery = []\<rparr> =
     Refuse (JSONError 400 ''invalid id'')"
proof -
  let ?r1 = "\<lparr>Method = ''GET'', URLPath = ''/admin/banners/5'', URLQuery = [(''id'', '' 7 '')]\<rparr>"
  let ?r2 = "\<lparr>Method = ''GET'', URLPath = ''/admin/banners/1/2'', URLQuery = []\<rparr>"
  let ?r3 = "\<lparr>Method = ''GET'', URLPath = ''/admin/banners/'', URLQuery = []\<rparr>"
  let ?r4 = "\<lparr>Method = ''GET'', URLPath = ''/admin/banners/abc'', URLQuery = []\<rparr>"
  have q1: "queryID ?r1 = ''7''" and p1: "parsedID ''7'' = Inr (7, True)"
    by code_simp+
  have q2: "queryID ?r2 = []" and s2: "trailingSegment ?r2 ''/admin/banners'' = ''1/2''"
    and c2: "Contains ''1/2'' ''/''"
    by code_simp+
  have q3: "queryID ?r3 = []" and s3: "trailingSegment ?r3 ''/admin/banners'' = []"
    by code_simp+
  have n4: "\<not> integerText ''abc''" and e4: "parseResourceID ?r4 (Path (configs ! 0)) = Inl ErrSyntax"
    by code_simp+
  from resource_identifier [of ?r1 "''/admin/banners''"] q1 p1
  have a: "parseResourceID ?r1 ''/admin/banners'' = Inr (7, True)" by simp
  from resource_identifier [of ?r2 "''/admin/banners''"] q2 s2 c2
  have b: "parseResourceID ?r2 ''/admin/banners'' = Inl InvalidIDPath" by simp
  from resource_identifier [of ?r3 "''/admin/banners''"] q3 s3
  have c: "parseResourceID ?r3 ''/admin/banners'' = Inr (0, False)" by simp
  from resource_identifier [of ?r4 "''/admin/banners''" "''abc''" "configs ! 0"] n4 e4
  have d: "\<exists>e. parsedID ''abc'' = Inl e"
    and e: "makeAdminTableCRUDHandler (configs ! 0) ?r4 = Refuse (JSONError 400 ''invalid id'')"
    by blast+
  from a b c d e show ?thesis by blast
qed

section \<open>Properties of the admin CRUD handlers\<close>





section \<open>Properties of the generated statements\<close>


lemma payloadGet_cong: "map_of p1 = map_of p2 \<Longrightarrow> payloadGet p1 key = payloadGet p2 key"
  by (simp add: payloadGet_def)

lemma createLoop_cong:
  assumes "map_of p1 = map_of p2"
  shows "createLoop pf cfg p1 keys idx acc = createLoop pf cfg p2 keys idx acc"
proof (induction keys arbitrary: idx acc)
  case Nil
  then show ?case by simp
next
  case (Cons key keys)
  obtain columns placeholders args where acc: "acc = (columns, placeholders, args)"
    by (cases acc) auto
  show ?case
    using Cons.IH payloadGet_cong [OF assms, of key]
    by (simp add: acc split: sum.splits)
qed

lemma updateLoop_cong:
  assumes "map_of p1 = map_of p2"
  shows "updateLoop pf cfg p1 keys idx acc = updateLoop pf cfg p2 keys idx acc"
proof (induction keys arbitrary: idx acc)
  case Nil
  then show ?case by simp
next
  case (Cons key keys)
  obtain setClauses args where acc: "acc = (setClauses, args)"
    by (cases acc) auto
  show ?case
    using Cons.IH payloadGet_cong [OF assms, of key]
    by (simp add: acc split: sum.splits)
qed

lemma payloadKeys_dom: "payloadKeys p = dom (map_of p)"
  by (simp add: payloadKeys_def dom_map_of_conv_image_fst)

lemma missingOrEmpty_cong: "map_of p1 = map_of p2 \<Longrightarrow> missingOrEmpty p1 key = missingOrEmpty p2 key"
  by (simp add: missingOrEmpty_def)

lemma validateCRUDPayload_cong:
  assumes "map_of p1 = map_of p2"
  shows "validateCRUDPayload p1 allowed required = [] \<longleftrightarrow>
         validateCRUDPayload p2 allowed required = []"
proof -
  have "map_of (validateCRUDPayload p1 allowed required) =
        map_of (validateCRUDPayload p2 allowed required)"
    using assms missingOrEmpty_cong [OF assms]
    by (auto simp: fun_eq_iff validateCRUDPayload_lookup payloadKeys_dom)
  then show ?thesis
    by (metis map_of_eq_empty_iff)
qed

lemma sortedMapKeys_cong:
  assumes "distinct (map fst p1)" and "distinct (map fst p2)" and "map_of p1 = map_of p2"
  shows "sortedMapKeys p1 = sortedMapKeys p2"
proof -
  have "set (map fst p1) = set (map fst p2)"
    using assms(3) payloadKeys_dom [of p1] payloadKeys_dom [of p2]
    by (simp add: payloadKeys_def)
  then have "set (sort (map fst p1)) = set (sort (map fst p2))" by simp
  moreover have "distinct (sort (map fst p1))" and "distinct (sort (map fst p2))"
    using assms(1,2) by simp_all
  ultimately show ?thesis
    unfolding sortedMapKeys_def
    by (intro sorted_distinct_set_unique) simp_all
qed

lemma createLoop_closed:
  "createLoop pf cfg p keys idx (columns, placeholders, args) = Inr (columns', placeholders', args') \<Longrightarrow>
     columns' = columns @ map quoteIdentifier keys \<and>
     placeholders' = placeholders @ map placeholder [idx..<idx + length keys] \<and>
     map Inr args' = map Inr args @ normalized pf cfg p keys"
proof (induction keys arbitrary: idx columns placeholders args)
  case Nil
  then show ?case by (simp add: normalized_def)
next
  case (Cons key keys)
  from Cons.prems obtain v where v: "normalizeCRUDValue pf key (payloadGet p key) cfg = Inr v"
    and rest: "createLoop pf cfg p keys (idx + 1)
        (columns @ [quoteIdentifier key], placeholders @ [''$'' @ decimal (idx + 1)], args @ [v]) =
        Inr (columns', placeholders', args')"
    by (auto split: sum.splits)
  have "idx < idx + length (key # keys)" by simp
  from upt_conv_Cons [OF this]
  have upt: "[idx..<idx + length (key # keys)] = idx # [idx + 1..<idx + 1 + length keys]"
    by (simp del: upt_Suc)
  from Cons.IH [OF rest] v show ?case
    unfolding upt by (simp add: normalized_def placeholder_def del: upt_Suc)
qed

lemma updateLoop_closed:
  "updateLoop pf cfg p keys idx (setClauses, args) = Inr (setClauses', args') \<Longrightarrow>
     setClauses' = setClauses @
       map (\<lambda>(i, key). quoteIdentifier key @ '' = '' @ placeholder i) (enumerate idx keys) \<and>
     map Inr args' = map Inr args @ normalized pf cfg p keys"
proof (induction keys arbitrary: idx setClauses args)
  case Nil
  then show ?case by (simp add: normalized_def)
next
  case (Cons key keys)
  from Cons.prems obtain v where v: "normalizeCRUDValue pf key (payloadGet p key) cfg = Inr v"
    and rest: "updateLoop pf cfg p keys (idx + 1)
        (setClauses @ [quoteIdentifier key @ '' = $'' @ decimal (idx + 1)], args @ [v]) =
        Inr (setClauses', args')"
    by (auto split: sum.splits)
  from Cons.IH [OF rest] v show ?case
    by (simp add: normalized_def placeholder_def)
qed

lemma create_statement_closed:
  assumes "adminCreateOne_statement pf cfg p = Inr (q, args)"
  shows "q = insertStatement cfg (sortedMapKeys p) \<and>
         map Inr args = normalized pf cfg p (sortedMapKeys p)"
proof (cases "sortedMapKeys p = []")
  case True
  with assms show ?thesis
    by (auto simp: adminCreateOne_statement_def Let_def insertStatement_def normalized_def
        split: if_splits)
next
  case False
  with assms obtain columns placeholders where
    loop: "createLoop pf cfg p (sortedMapKeys p) 0 ([], [], []) = Inr (columns, placeholders, args)"
    and q: "q = ''WITH ins AS (INSERT INTO '' @ quoteTableName (Table cfg) @ '' ('' @
             Join columns '', '' @ '') VALUES ('' @ Join placeholders '', '' @
             '') RETURNING *) SELECT to_jsonb(ins) FROM ins''"
    by (auto simp: adminCreateOne_statement_def Let_def split: if_splits sum.splits)
  from createLoop_closed [OF loop] q False show ?thesis
    by (simp add: insertStatement_def)
qed

lemma update_statement_closed:
  assumes "adminUpdateOne_statement pf cfg ID p = Inr (q, args)"
  shows "q = updateStatement cfg (sortedMapKeys p) \<and>
         map Inr args = normalized pf cfg p (sortedMapKeys p) @ [Inr (GoInt64 ID)]"
proof -
  from assms obtain setClauses args0 where
    loop: "updateLoop pf cfg p (sortedMapKeys p) 0 ([], []) = Inr (setClauses, args0)"
    and q: "q = ''WITH upd AS (UPDATE '' @ quoteTableName (Table cfg) @ '' SET '' @
              Join (if TouchUpdatedAt cfg then setClauses @ [''updated_at = NOW()''] else setClauses)
                '', '' @
              '' WHERE id = $'' @ decimal (length args0 + 1) @
              '' RETURNING *) SELECT to_jsonb(upd) FROM upd''"
    and args: "args = args0 @ [GoInt64 ID]"
    by (auto simp: adminUpdateOne_statement_def Let_def split: if_splits sum.splits)
  from updateLoop_closed [OF loop]
  have sc: "setClauses =
      map (\<lambda>(i, key). quoteIdentifier key @ '' = '' @ placeholder i) (enumerate 0 (sortedMapKeys p))"
    and a0: "map Inr args0 = normalized pf cfg p (sortedMapKeys p)"
    by simp_all
  from a0 have "length args0 = length (sortedMapKeys p)"
    by (metis length_map normalized_def)
  with q sc a0 args show ?thesis
    by (simp add: updateStatement_def placeholder_def)
qed


lemma create_statement_cong:
  assumes "distinct (map fst p1)" and "distinct (map fst p2)" and "map_of p1 = map_of p2"
    and "adminCreateOne_statement pf cfg p1 = Inr s"
  shows "adminCreateOne_statement pf cfg p2 = Inr s"
proof -
  from assms(4) have v1: "validateCRUDPayload p1 (MutableColumns cfg) (RequiredOnCreate cfg) = []"
    by (auto simp: adminCreateOne_statement_def Let_def split: if_splits)
  with validateCRUDPayload_cong [OF assms(3)]
  have v2: "validateCRUDPayload p2 (MutableColumns cfg) (RequiredOnCreate cfg) = []"
    by simp
  have keys: "sortedMapKeys p2 = sortedMapKeys p1"
    using sortedMapKeys_cong [OF assms(1-3)] by simp
  have loop: "createLoop pf cfg p2 ks idx acc = createLoop pf cfg p1 ks idx acc" for ks idx acc
    using createLoop_cong [OF assms(3)] by simp
  have "adminCreateOne_statement pf cfg p2 = adminCreateOne_statement pf cfg p1"
    by (simp only: adminCreateOne_statement_def v1 v2 keys loop)
  with assms(4) show ?thesis by simp
qed

lemma update_statement_cong:
  assumes "distinct (map fst p1)" and "distinct (map fst p2)" and "map_of p1 = map_of p2"
    and "adminUpdateOne_statement pf cfg ID p1 = Inr s"
  shows "adminUpdateOne_statement pf cfg ID p2 = Inr s"
proof -
  from assms(4) have v1: "validateCRUDPayload p1 (MutableColumns cfg) [] = []"
    by (auto simp: adminUpdateOne_statement_def Let_def split: if_splits)
  with validateCRUDPayload_cong [OF assms(3)]
  have v2: "validateCRUDPayload p2 (MutableColumns cfg) [] = []"
    by simp
  have keys: "sortedMapKeys p2 = sortedMapKeys p1"
    using sortedMapKeys_cong [OF assms(1-3)] by simp
  have loop: "updateLoop pf cfg p2 ks idx acc = updateLoop pf cfg p1 ks idx acc" for ks idx acc
    using updateLoop_cong [OF assms(3)] by simp
  have "adminUpdateOne_statement pf cfg ID p2 = adminUpdateOne_statement pf cfg ID p1"
    by (simp only: adminUpdateOne_statement_def v1 v2 keys loop)
  with assms(4) show ?thesis by simp
qed

text \<open>
  Claim C10. The keys of a payload are visited in lexicographically sorted order, and the
  statement of a create or an update that is accepted is the statement over the sorted
  keys, its arguments the coerced values in that order (then the identifier, for an
  update). So two payloads that are equal as maps, whatever the order in which their
  entries are visited, give the same statement text and the same arguments.
\<close>

theorem statements_determined_by_sorted_keys:
  assumes "distinct (map fst p1)" and "distinct (map fst p2)" and "map_of p1 = map_of p2"
  shows
    "sortedMapKeys p1 = sortedMapKeys p2 \<and>
     sorted (sortedMapKeys p1) \<and> set (sortedMapKeys p1) = payloadKeys p1 \<and>
     (\<forall>q args. adminCreateOne_statement pf cfg p1 = Inr (q, args) \<longrightarrow>
        adminCreateOne_statement pf cfg p2 = Inr (q, args) \<and>
        q = insertStatement cfg (sortedMapKeys p1) \<and>
        map Inr args = normalized pf cfg p1 (sortedMapKeys p1)) \<and>
     (\<forall>q args. adminUpdateOne_statement pf cfg ID p1 = Inr (q, args) \<longrightarrow>
        adminUpdateOne_statement pf cfg ID p2 = Inr (q, args) \<and>
        q = updateStatement cfg (sortedMapKeys p1) \<and>
        map Inr args = normalized pf cfg p1 (sortedMapKeys p1) @ [Inr (GoInt64 ID)])"
proof -
  have keys: "sortedMapKeys p1 = sortedMapKeys p2"
    using assms by (rule sortedMapKeys_cong)
  have order: "sorted (sortedMapKeys p1)" and members: "set (sortedMapKeys p1) = payloadKeys p1"
    by (simp_all add: sortedMapKeys_def payloadKeys_def)
  have create: "adminCreateOne_statement pf cfg p2 = Inr (q, args) \<and>
        q = insertStatement cfg (sortedMapKeys p1) \<and>
        map Inr args = normalized pf cfg p1 (sortedMapKeys p1)"
    if "adminCreateOne_statement pf cfg p1 = Inr (q, args)" for q args
    using that create_statement_cong [OF assms that] create_statement_closed [OF that] by simp
  have update: "adminUpdateOne_statement pf cfg ID p2 = Inr (q, args) \<and>
        q = updateStatement cfg (sortedMapKeys p1) \<and>
        map Inr args = normalized pf cfg p1 (sortedMapKeys p1) @ [Inr (GoInt64 ID)]"
    if "adminUpdateOne_statement pf cfg ID p1 = Inr (q, args)" for q args
    using that update_statement_cong [OF assms that] update_statement_closed [OF that] by simp
  from keys order members create update show ?thesis by blast
qed

theorem statements_determined_by_sorted_keys_witness:
  "sortedMapKeys [(''model'', GoString ''M3''), (''brand'', GoString ''BMW'')] = [''brand'', ''model''] \<and>
   adminCreateOne_statement samplePlatform (configs ! 7)
     [(''brand'', GoString ''BMW''), (''model'', GoString ''M3'')] =
     Inr (''WITH ins AS (INSERT INTO '' @ jsonQuote ''public'' @ ''.'' @ jsonQuote ''tuning'' @
          '' ('' @ jsonQuote ''brand'' @ '', '' @ jsonQuote ''model'' @
          '') VALUES ($1, $2) RETURNING *) SELECT to_jsonb(ins) FROM ins'',
          [GoString ''BMW'', GoString ''M3'']) \<and>
   adminUpdateOne_statement samplePlatform (configs ! 7) 5
     [(''brand'', GoString ''BMW''), (''model'', GoString ''M3'')] =
     Inr (''WITH upd AS (UPDATE '' @ jsonQuote ''public'' @ ''.'' @ jsonQuote ''tuning'' @
          '' SET '' @ jsonQuote ''brand'' @ '' = $1, '' @ jsonQuote ''model'' @
          '' = $2, updated_at = NOW() WHERE id = $3 RETURNING *) SELECT to_jsonb(upd) FROM upd'',
          [GoString ''BMW'', GoString ''M3'', GoInt64 5])"
proof -
  let ?p1 = "[(''model'', GoString ''M3''), (''brand'', GoString ''BMW'')]"
  let ?p2 = "[(''brand'', GoString ''BMW''), (''model'', GoString ''M3'')]"
  let ?ins = "''WITH ins AS (INSERT INTO '' @ jsonQuote ''public'' @ ''.'' @ jsonQuote ''tuning'' @
          '' ('' @ jsonQuote ''brand'' @ '', '' @ jsonQuote ''model'' @
          '') VALUES ($1, $2) RETURNING *) SELECT to_jsonb(ins) FROM ins''"
  let ?upd = "''WITH upd AS (UPDATE '' @ jsonQuote ''public'' @ ''.'' @ jsonQuote ''tuning'' @
          '' SET '' @ jsonQuote ''brand'' @ '' = $1, '' @ jsonQuote ''model'' @
          '' = $2, updated_at = NOW() WHERE id = $3 RETURNING *) SELECT to_jsonb(upd) FROM upd''"
  have d1: "distinct (map fst ?p1)" and d2: "distinct (map fst ?p2)" by simp_all
  have same: "map_of ?p1 = map_of ?p2" by (auto simp: fun_eq_iff)
  have keys: "sortedMapKeys ?p1 = [''brand'', ''model'']" by code_simp
  have c1: "adminCreateOne_statement samplePlatform (configs ! 7) ?p1 =
      Inr (?ins, [GoString ''BMW'', GoString ''M3''])"
    by code_simp
  have u1: "adminUpdateOne_statement samplePlatform (configs ! 7) 5 ?p1 =
      Inr (?upd, [GoString ''BMW'', GoString ''M3'', GoInt64 5])"
    by code_simp
  from statements_determined_by_sorted_keys [OF d1 d2 same, of samplePlatform "configs ! 7" 5]
    c1 u1
  have "adminCreateOne_statement samplePlatform (configs ! 7) ?p2 =
      Inr (?ins, [GoString ''BMW'', GoString ''M3''])"
    and "adminUpdateOne_statement samplePlatform (configs ! 7) 5 ?p2 =
      Inr (?upd, [GoString ''BMW'', GoString ''M3'', GoInt64 5])"
    by blast+
  with keys show ?thesis by blast
qed

section \<open>Properties of the payload validation\<close>


lemma validateCRUDPayload_empty:
  "validateCRUDPayload payload allowed required = [] \<longleftrightarrow>
     payloadKeys payload \<subseteq> set allowed \<and> (\<forall>key \<in> set required. \<not> missingOrEmpty payload key)"
proof -
  have "validateCRUDPayload payload allowed required = [] \<longleftrightarrow>
        (\<forall>key. map_of (validateCRUDPayload payload allowed required) key = None)"
    by (metis map_of_eq_empty_iff)
  also have "\<dots> \<longleftrightarrow>
     payloadKeys payload \<subseteq> set allowed \<and> (\<forall>key \<in> set required. \<not> missingOrEmpty payload key)"
    by (auto simp: validateCRUDPayload_lookup)
  finally show ?thesis .
qed

lemma normalizeCRUDValue_required:
  "normalizeCRUDValue pf column v (cfg\<lparr>RequiredOnCreate := r\<rparr>) = normalizeCRUDValue pf column v cfg"
  by (simp add: normalizeCRUDValue_def)

lemma updateLoop_required:
  "updateLoop pf (cfg\<lparr>RequiredOnCreate := r\<rparr>) payload keys idx acc =
   updateLoop pf cfg payload keys idx acc"
proof (induction keys arbitrary: idx acc)
  case Nil
  then show ?case by simp
next
  case (Cons key keys)
  obtain setClauses args where acc: "acc = (setClauses, args)" by (cases acc) auto
  show ?case
    using Cons.IH by (simp add: acc normalizeCRUDValue_required split: sum.splits)
qed

lemma update_statement_required:
  "adminUpdateOne_statement pf (cfg\<lparr>RequiredOnCreate := r\<rparr>) ID payload =
   adminUpdateOne_statement pf cfg ID payload"
  by (auto simp: adminUpdateOne_statement_def updateLoop_required Let_def split: sum.splits)

lemma update_required:
  "adminUpdateOne pf db (cfg\<lparr>RequiredOnCreate := r\<rparr>) ID payload =
   adminUpdateOne pf db cfg ID payload"
  by (simp add: adminUpdateOne_def update_statement_required)

lemma sortedMapKeys_Nil: "sortedMapKeys payload = [] \<longleftrightarrow> payload = []"
proof -
  have "length (sortedMapKeys payload) = length payload"
    by (simp add: sortedMapKeys_def)
  then show ?thesis by (metis length_0_conv)
qed

lemma update_statement_validation:
  "adminUpdateOne_statement pf cfg ID payload =
     (if payloadKeys payload \<subseteq> set (MutableColumns cfg) then
        (if payload = [] \<and> \<not> TouchUpdatedAt cfg then Inl (JSONError 400 ''empty payload'')
         else
           (case updateLoop pf cfg payload (sortedMapKeys payload) 0 ([], []) of
              Inl msg \<Rightarrow> Inl (JSONError 400 msg)
            | Inr (setClauses, args) \<Rightarrow>
                Inr (updateStatement cfg (sortedMapKeys payload), args @ [GoInt64 ID])))
      else Inl (JSONValidation 422 ''validation error''
             (validateCRUDPayload payload (MutableColumns cfg) [])))"
proof (cases "payloadKeys payload \<subseteq> set (MutableColumns cfg)")
  case False
  then have "validateCRUDPayload payload (MutableColumns cfg) [] \<noteq> []"
    by (simp add: validateCRUDPayload_empty)
  with False show ?thesis by (simp add: adminUpdateOne_statement_def)
next
  case True
  then have ok: "validateCRUDPayload payload (MutableColumns cfg) [] = []"
    by (simp add: validateCRUDPayload_empty)
  show ?thesis
  proof (cases "adminUpdateOne_statement pf cfg ID payload")
    case (Inr s)
    obtain q args where s: "s = (q, args)" by (cases s) auto
    from update_statement_closed [OF Inr [unfolded s]]
    have q: "q = updateStatement cfg (sortedMapKeys payload)" by simp
    from Inr s q ok True show ?thesis
      by (auto simp: adminUpdateOne_statement_def sortedMapKeys_Nil Let_def
          split: if_splits sum.splits)
  next
    case (Inl refused)
    with ok True show ?thesis
      by (auto simp: adminUpdateOne_statement_def sortedMapKeys_Nil Let_def
          split: if_splits sum.splits)
  qed
qed


lemma create_statement_accepted:
  assumes "validateCRUDPayload payload (MutableColumns cfg) (RequiredOnCreate cfg) = []"
  shows "adminCreateOne_statement pf cfg payload \<noteq> Inl (JSONValidation c m errs)"
  using assms
  by (auto simp: adminCreateOne_statement_def Let_def split: if_splits sum.splits)

text \<open>
  Claim C2. For a descriptor (its required-on-create columns among its mutable columns)
  and a payload, the validation of a create reports "field is not editable" for exactly
  the payload keys outside the mutable columns and "field is required" for exactly the
  required-on-create columns that are missing, null or a blank string, and nothing else;
  the create is refused with these errors and status 422 exactly when there is one. An
  update is refused with status 422 exactly when a payload key is outside the mutable
  columns, with exactly those keys reported, and never with "field is required"; when
  every key is mutable the update goes on to its statement, and the required-on-create
  columns of the descriptor have no influence on what an update does.
\<close>

theorem validation_errors:
  assumes "set (RequiredOnCreate cfg) \<subseteq> set (MutableColumns cfg)"
  shows
    "(map_of (validateCRUDPayload payload (MutableColumns cfg) (RequiredOnCreate cfg)) key =
        Some ''field is not editable'' \<longleftrightarrow>
      key \<in> payloadKeys payload \<and> key \<notin> set (MutableColumns cfg)) \<and>
     (map_of (validateCRUDPayload payload (MutableColumns cfg) (RequiredOnCreate cfg)) key =
        Some ''field is required'' \<longleftrightarrow>
      key \<in> set (RequiredOnCreate cfg) \<and> missingOrEmpty payload key) \<and>
     (map_of (validateCRUDPayload payload (MutableColumns cfg) (RequiredOnCreate cfg)) key = None \<longleftrightarrow>
      \<not> (key \<in> payloadKeys payload \<and> key \<notin> set (MutableColumns cfg)) \<and>
      \<not> (key \<in> set (RequiredOnCreate cfg) \<and> missingOrEmpty payload key)) \<and>
     (map_of (validateCRUDPayload payload (MutableColumns cfg) []) key =
        Some ''field is not editable'' \<longleftrightarrow>
      key \<in> payloadKeys payload \<and> key \<notin> set (MutableColumns cfg)) \<and>
     (map_of (validateCRUDPayload payload (MutableColumns cfg) []) key = None \<longleftrightarrow>
      \<not> (key \<in> payloadKeys payload \<and> key \<notin> set (MutableColumns cfg))) \<and>
     map_of (validateCRUDPayload payload (MutableColumns cfg) []) key \<noteq> Some ''field is required'' \<and>
     (validateCRUDPayload payload (MutableColumns cfg) (RequiredOnCreate cfg) \<noteq> [] \<longrightarrow>
        adminCreateOne_statement pf cfg payload =
          Inl (JSONValidation 422 ''validation error''
            (validateCRUDPayload payload (MutableColumns cfg) (RequiredOnCreate cfg)))) \<and>
     (validateCRUDPayload payload (MutableColumns cfg) [] \<noteq> [] \<longrightarrow>
        adminUpdateOne_statement pf cfg ID payload =
          Inl (JSONValidation 422 ''validation error''
            (validateCRUDPayload payload (MutableColumns cfg) []))) \<and>
     (validateCRUDPayload payload (MutableColumns cfg) (RequiredOnCreate cfg) = [] \<longleftrightarrow>
        payloadKeys payload \<subseteq> set (MutableColumns cfg) \<and>
        (\<forall>column \<in> set (RequiredOnCreate cfg). \<not> missingOrEmpty payload column)) \<and>
     (validateCRUDPayload payload (MutableColumns cfg) (RequiredOnCreate cfg) = [] \<longrightarrow>
        (\<forall>c m errs. adminCreateOne_statement pf cfg payload \<noteq> Inl (JSONValidation c m errs))) \<and>
     adminUpdateOne_statement pf cfg ID payload =
       (if payloadKeys payload \<subseteq> set (MutableColumns cfg) then
          (if payload = [] \<and> \<not> TouchUpdatedAt cfg then Inl (JSONError 400 ''empty payload'')
           else
             (case updateLoop pf cfg payload (sortedMapKeys payload) 0 ([], []) of
                Inl msg \<Rightarrow> Inl (JSONError 400 msg)
              | Inr (setClauses, args) \<Rightarrow>
                  Inr (updateStatement cfg (sortedMapKeys payload), args @ [GoInt64 ID])))
        else Inl (JSONValidation 422 ''validation error''
               (validateCRUDPayload payload (MutableColumns cfg) []))) \<and>
     (\<forall>required.
        adminUpdateOne_statement pf (cfg\<lparr>RequiredOnCreate := required\<rparr>) ID payload =
          adminUpdateOne_statement pf cfg ID payload \<and>
        adminUpdateOne pf db (cfg\<lparr>RequiredOnCreate := required\<rparr>) ID payload =
          adminUpdateOne pf db cfg ID payload)"
proof -
  have handlers:
    "(validateCRUDPayload payload (MutableColumns cfg) (RequiredOnCreate cfg) \<noteq> [] \<longrightarrow>
        adminCreateOne_statement pf cfg payload =
          Inl (JSONValidation 422 ''validation error''
            (validateCRUDPayload payload (MutableColumns cfg) (RequiredOnCreate cfg)))) \<and>
     (validateCRUDPayload payload (MutableColumns cfg) [] \<noteq> [] \<longrightarrow>
        adminUpdateOne_statement pf cfg ID payload =
          Inl (JSONValidation 422 ''validation error''
            (validateCRUDPayload payload (MutableColumns cfg) [])))"
    by (simp add: adminCreateOne_statement_def adminUpdateOne_statement_def)
  have lookups:
    "(map_of (validateCRUDPayload payload (MutableColumns cfg) (RequiredOnCreate cfg)) key =
        Some ''field is not editable'' \<longleftrightarrow>
      key \<in> payloadKeys payload \<and> key \<notin> set (MutableColumns cfg)) \<and>
     (map_of (validateCRUDPayload payload (MutableColumns cfg) (RequiredOnCreate cfg)) key =
        Some ''field is required'' \<longleftrightarrow>
      key \<in> set (RequiredOnCreate cfg) \<and> missingOrEmpty payload key) \<and>
     (map_of (validateCRUDPayload payload (MutableColumns cfg) (RequiredOnCreate cfg)) key = None \<longleftrightarrow>
      \<not> (key \<in> payloadKeys payload \<and> key \<notin> set (MutableColumns cfg)) \<and>
      \<not> (key \<in> set (RequiredOnCreate cfg) \<and> missingOrEmpty payload key)) \<and>
     (map_of (validateCRUDPayload payload (MutableColumns cfg) []) key =
        Some ''field is not editable'' \<longleftrightarrow>
      key \<in> payloadKeys payload \<and> key \<notin> set (MutableColumns cfg)) \<and>
     (map_of (validateCRUDPayload payload (MutableColumns cfg) []) key = None \<longleftrightarrow>
      \<not> (key \<in> payloadKeys payload \<and> key \<notin> set (MutableColumns cfg))) \<and>
     map_of (validateCRUDPayload payload (MutableColumns cfg) []) key \<noteq> Some ''field is required''"
    using assms by (auto simp: validateCRUDPayload_lookup)
  have accepted:
    "validateCRUDPayload payload (MutableColumns cfg) (RequiredOnCreate cfg) = [] \<longleftrightarrow>
        payloadKeys payload \<subseteq> set (MutableColumns cfg) \<and>
        (\<forall>column \<in> set (RequiredOnCreate cfg). \<not> missingOrEmpty payload column)"
    by (rule validateCRUDPayload_empty)
  have create:
    "validateCRUDPayload payload (MutableColumns cfg) (RequiredOnCreate cfg) = [] \<longrightarrow>
        (\<forall>c m errs. adminCreateOne_statement pf cfg payload \<noteq> Inl (JSONValidation c m errs))"
    using create_statement_accepted by blast
  have update:
    "adminUpdateOne_statement pf cfg ID payload =
       (if payloadKeys payload \<subseteq> set (MutableColumns cfg) then
          (if payload = [] \<and> \<not> TouchUpdatedAt cfg then Inl (JSONError 400 ''empty payload'')
           else
             (case updateLoop pf cfg payload (sortedMapKeys payload) 0 ([], []) of
                Inl msg \<Rightarrow> Inl (JSONError 400 msg)
              | Inr (setClauses, args) \<Rightarrow>
                  Inr (updateStatement cfg (sortedMapKeys payload), args @ [GoInt64 ID])))
        else Inl (JSONValidation 422 ''validation error''
               (validateCRUDPayload payload (MutableColumns cfg) [])))"
    by (rule update_statement_validation)
  have free:
    "\<forall>required.
        adminUpdateOne_statement pf (cfg\<lparr>RequiredOnCreate := required\<rparr>) ID payload =
          adminUpdateOne_statement pf cfg ID payload \<and>
        adminUpdateOne pf db (cfg\<lparr>RequiredOnCreate := required\<rparr>) ID payload =
          adminUpdateOne pf db cfg ID payload"
    by (simp add: update_statement_required update_required)
  from lookups handlers accepted create update free show ?thesis by blast
qed

theorem validation_errors_witness:
  "map_of (validateCRUDPayload [(''title'', GoString ''x'')]
      (MutableColumns (configs ! 10)) (RequiredOnCreate (configs ! 10))) ''image_url'' =
     Some ''field is required'' \<and>
   adminCreateOne_statement samplePlatform (configs ! 10) [(''title'', GoString ''x'')] =
     Inl (JSONValidation 422 ''validation error'' [(''image_url'', ''field is required'')]) \<and>
   map_of (validateCRUDPayload [(''title'', GoString ''x'')]
      (MutableColumns (configs ! 10)) []) ''image_url'' = None \<and>
   adminUpdateOne_statement samplePlatform (configs ! 10) 1 [(''title'', GoString ''x'')] =
     Inr (''WITH upd AS (UPDATE '' @ jsonQuote ''public'' @ ''.'' @ jsonQuote ''portfolio_items'' @
          '' SET '' @ jsonQuote ''title'' @
          '' = $1 WHERE id = $2 RETURNING *) SELECT to_jsonb(upd) FROM upd'',
          [GoString ''x'', GoInt64 1]) \<and>
   map_of (validateCRUDPayload [(''id'', GoFloat64 7)]
      (MutableColumns (configs ! 10)) []) ''id'' = Some ''field is not editable'' \<and>
   adminUpdateOne_statement samplePlatform (configs ! 10) 1 [(''id'', GoFloat64 7)] =
     Inl (JSONValidation 422 ''validation error'' [(''id'', ''field is not editable'')])"
proof -
  let ?p = "[(''title'', GoString ''x'')]"
  have inv: "set (RequiredOnCreate (configs ! 10)) \<subseteq> set (MutableColumns (configs ! 10))"
    by code_simp
  have required: "''image_url'' \<in> set (RequiredOnCreate (configs ! 10)) \<and>
      missingOrEmpty ?p ''image_url''"
    by code_simp
  have editable: "\<not> (''image_url'' \<in> payloadKeys ?p \<and>
      ''image_url'' \<notin> set (MutableColumns (configs ! 10)))"
    by code_simp
  have errs1: "validateCRUDPayload ?p (MutableColumns (configs ! 10))
      (RequiredOnCreate (configs ! 10)) = [(''image_url'', ''field is required'')]"
    by code_simp
  have mutable: "payloadKeys ?p \<subseteq> set (MutableColumns (configs ! 10))"
    by code_simp
  have rest: "(if ?p = [] \<and> \<not> TouchUpdatedAt (configs ! 10)
       then Inl (JSONError 400 ''empty payload'')
       else (case updateLoop samplePlatform (configs ! 10) ?p (sortedMapKeys ?p) 0 ([], []) of
               Inl msg \<Rightarrow> Inl (JSONError 400 msg)
             | Inr (setClauses, args) \<Rightarrow>
                 Inr (updateStatement (configs ! 10) (sortedMapKeys ?p), args @ [GoInt64 1]))) =
     Inr (''WITH upd AS (UPDATE '' @ jsonQuote ''public'' @ ''.'' @ jsonQuote ''portfolio_items'' @
          '' SET '' @ jsonQuote ''title'' @
          '' = $1 WHERE id = $2 RETURNING *) SELECT to_jsonb(upd) FROM upd'',
          [GoString ''x'', GoInt64 1])"
    by code_simp
  have foreign: "''id'' \<in> payloadKeys [(''id'', GoFloat64 7)] \<and>
      ''id'' \<notin> set (MutableColumns (configs ! 10))"
    by code_simp
  have errs: "validateCRUDPayload [(''id'', GoFloat64 7)] (MutableColumns (configs ! 10)) [] =
      [(''id'', ''field is not editable'')]"
    by code_simp
  note first = validation_errors [OF inv, of ?p "''image_url''" samplePlatform 1]
  from first required editable
  have a: "map_of (validateCRUDPayload ?p
      (MutableColumns (configs ! 10)) (RequiredOnCreate (configs ! 10))) ''image_url'' =
     Some ''field is required''"
    and b: "map_of (validateCRUDPayload ?p (MutableColumns (configs ! 10)) []) ''image_url'' = None"
    by blast+
  from first errs1
  have a': "adminCreateOne_statement samplePlatform (configs ! 10) ?p =
     Inl (JSONValidation 422 ''validation error'' [(''image_url'', ''field is required'')])"
    by simp
  from first have "adminUpdateOne_statement samplePlatform (configs ! 10) 1 ?p =
       (if payloadKeys ?p \<subseteq> set (MutableColumns (configs ! 10)) then
          (if ?p = [] \<and> \<not> TouchUpdatedAt (configs ! 10) then Inl (JSONError 400 ''empty payload'')
           else
             (case updateLoop samplePlatform (configs ! 10) ?p (sortedMapKeys ?p) 0 ([], []) of
                Inl msg \<Rightarrow> Inl (JSONError 400 msg)
              | Inr (setClauses, args) \<Rightarrow>
                  Inr (updateStatement (configs ! 10) (sortedMapKeys ?p), args @ [GoInt64 1])))
        else Inl (JSONValidation 422 ''validation error''
               (validateCRUDPayload ?p (MutableColumns (configs ! 10)) [])))"
    by blast
  with mutable rest
  have b': "adminUpdateOne_statement samplePlatform (configs ! 10) 1 ?p =
     Inr (''WITH upd AS (UPDATE '' @ jsonQuote ''public'' @ ''.'' @ jsonQuote ''portfolio_items'' @
          '' SET '' @ jsonQuote ''title'' @
          '' = $1 WHERE id = $2 RETURNING *) SELECT to_jsonb(upd) FROM upd'',
          [GoString ''x'', GoInt64 1])"
    by (simp only: if_True)
  from validation_errors [OF inv, of "[(''id'', GoFloat64 7)]" "''id''" samplePlatform 1]
    foreign errs
  have c: "map_of (validateCRUDPayload [(''id'', GoFloat64 7)]
      (MutableColumns (configs ! 10)) []) ''id'' = Some ''field is not editable''"
    and d: "adminUpdateOne_statement samplePlatform (configs ! 10) 1 [(''id'', GoFloat64 7)] =
     Inl (JSONValidation 422 ''validation error'' [(''id'', ''field is not editable'')])"
    by auto
  from a a' b b' c d show ?thesis by blast
qed

section \<open>Properties of the value coercion\<close>



lemma roundToFloat64_exact:
  fixes m :: int
  assumes "\<bar>m\<bar> < 2 ^ 53"
  shows "roundToFloat64 (m * 2 ^ e) = m * 2 ^ e"
proof (cases "bitlen \<bar>m * 2 ^ e\<bar> \<le> 53")
  case True
  then show ?thesis by (simp add: roundToFloat64_def)
next
  case False
  then have m0: "m \<noteq> 0" by auto
  then have pos: "0 < \<bar>m\<bar>" by simp
  let ?a = "\<bar>m * 2 ^ e\<bar>"
  have a: "?a = \<bar>m\<bar> * 2 ^ e" by (simp add: abs_mult)
  have len: "bitlen ?a = bitlen \<bar>m\<bar> + int e"
    unfolding a using bitlen_pow2 [OF pos, of e] by simp
  have "bitlen \<bar>m\<bar> \<le> 53"
    using assms by (simp add: bitlen_le_iff_power)
  with len have k: "nat (bitlen ?a - 53) \<le> e" by simp
  let ?k = "nat (bitlen ?a - 53)"
  have "(2::int) ^ ?k dvd 2 ^ e"
    using k by (rule le_imp_power_dvd)
  then have "(2::int) ^ ?k dvd \<bar>m\<bar> * 2 ^ e"
    by (rule dvd_mult)
  with a have dvd: "(2::int) ^ ?k dvd ?a" by simp
  then have r: "?a mod 2 ^ ?k = 0" by simp
  from dvd have q: "?a div 2 ^ ?k * 2 ^ ?k = ?a" by simp
  have "roundToFloat64 (m * 2 ^ e) = sgn (m * 2 ^ e) * (?a div 2 ^ ?k * 2 ^ ?k)"
    using False r by (simp add: roundToFloat64_def Let_def)
  also have "\<dots> = sgn (m * 2 ^ e) * ?a" by (simp only: q)
  also have "\<dots> = m * 2 ^ e" by (simp add: sgn_mult_abs)
  finally show ?thesis .
qed

lemma roundToFloat64_bound:
  assumes "\<bar>n\<bar> \<le> 2 ^ 63"
  shows "\<bar>roundToFloat64 n\<bar> \<le> 2 ^ 63"
proof (cases "\<bar>n\<bar> = 2 ^ 63")
  case True
  then have "n = 1 * 2 ^ 63 \<or> n = (- 1) * 2 ^ 63" by auto
  then have "roundToFloat64 n = n"
    using roundToFloat64_exact [of 1 63] roundToFloat64_exact [of "- 1" 63] by auto
  with True show ?thesis by simp
next
  case False
  with assms have lt: "\<bar>n\<bar> < 2 ^ 63" by simp
  show ?thesis
  proof (cases "bitlen \<bar>n\<bar> \<le> 53")
    case True
    with assms show ?thesis by (simp add: roundToFloat64_def)
  next
    case big: False
    let ?a = "\<bar>n\<bar>"
    let ?k = "nat (bitlen ?a - 53)"
    let ?q = "?a div 2 ^ ?k"
    let ?r = "?a mod 2 ^ ?k"
    let ?q' = "if 2 ^ ?k < 2 * ?r \<or> (2 * ?r = 2 ^ ?k \<and> odd ?q) then ?q + 1 else ?q"
    from big have apos: "0 < ?a" by (auto simp: bitlen_le_iff_power)
    have len63: "bitlen ?a \<le> 63"
      using lt by (simp add: bitlen_le_iff_power)
    have "?a < 2 ^ nat (bitlen ?a)"
      using bitlen_bounds [OF apos] by simp
    also have "nat (bitlen ?a) = 53 + ?k" using big by simp
    finally have bound: "?a < 2 ^ 53 * 2 ^ ?k" by (simp add: power_add)
    have split: "?a = ?q * 2 ^ ?k + ?r"
      by (rule div_mult_mod_eq [symmetric])
    have rem: "0 \<le> ?r" by simp
    have "?q < 2 ^ 53"
    proof (rule ccontr)
      assume "\<not> ?q < 2 ^ 53"
      then have "2 ^ 53 * 2 ^ ?k \<le> ?q * 2 ^ ?k"
        by (simp add: mult_right_mono)
      with split rem bound show False by linarith
    qed
    then have q': "?q' \<le> 2 ^ 53" by simp
    have q'0: "0 \<le> ?q'" by (simp add: pos_imp_zdiv_nonneg_iff)
    have k10: "?k \<le> 10" using len63 by simp
    define P where "P = (2::int) ^ ?k"
    define Q where "Q = ?q'"
    have Q0: "0 \<le> Q" and Q53: "Q \<le> 2 ^ 53"
      using q'0 q' by (simp_all only: Q_def)
    have "(2::int) ^ ?k \<le> 2 ^ 10"
      using k10 by (rule power_increasing) simp
    then have P10: "P \<le> 2 ^ 10" and P0: "0 \<le> P"
      by (simp_all add: P_def)
    have "roundToFloat64 n = sgn n * (?q' * 2 ^ ?k)"
      using big by (simp add: roundToFloat64_def Let_def)
    then have "roundToFloat64 n = sgn n * (Q * P)"
      by (simp only: P_def Q_def)
    then have "\<bar>roundToFloat64 n\<bar> = \<bar>sgn n\<bar> * (Q * P)"
      using Q0 P0 by (simp add: abs_mult)
    also have "\<dots> \<le> 1 * (Q * P)"
    proof (rule mult_right_mono)
      show "\<bar>sgn n\<bar> \<le> 1" by (simp add: abs_sgn_eq)
      show "0 \<le> Q * P" using Q0 P0 by simp
    qed
    also have "\<dots> \<le> 2 ^ 53 * 2 ^ 10"
      using mult_mono [OF Q53 P10 _ P0] by simp
    also have "\<dots> = (2::int) ^ 63" by simp
    finally show ?thesis .
  qed
qed


lemma truncation_of_int: "truncation (of_int n) = n"
  by (simp add: truncation_def)

lemma sint_word_of_int:
  assumes "- (2 ^ 63) \<le> (k::int)" and "k < 2 ^ 63"
  shows "sint (word_of_int k :: 64 word) = k"
  using assms by (simp add: sint_sbintrunc' signed_take_bit_int_eq_self)

lemma sint_in_range: "\<bar>sint (w :: 64 word)\<bar> \<le> 2 ^ 63"
proof -
  have "- (2 ^ 63) \<le> sint w" and "sint w < 2 ^ 63"
    using sint_ge [of w] sint_lt [of w] by simp_all
  then show ?thesis by simp
qed

lemma float64_of_int64_bound: "\<bar>float64_of_int64 w\<bar> \<le> 2 ^ 63"
proof -
  have "\<bar>roundToFloat64 (sint w)\<bar> \<le> 2 ^ 63"
    using sint_in_range by (rule roundToFloat64_bound)
  then have "(of_int \<bar>roundToFloat64 (sint w)\<bar> :: rat) \<le> of_int (2 ^ 63)"
    by (simp only: of_int_le_iff)
  then show ?thesis by (simp add: float64_of_int64_def)
qed

lemma normalize_integral:
  assumes "column \<notin> set (JSONColumns cfg)" and "\<bar>m\<bar> < 2 ^ 53"
    and "- (2 ^ 63) \<le> m * 2 ^ e" and "m * 2 ^ e < 2 ^ 63"
  shows "normalizeCRUDValue pf column (GoFloat64 (of_int (m * 2 ^ e))) cfg =
         Inr (GoInt64 (word_of_int (m * 2 ^ e)))"
proof -
  let ?n = "m * 2 ^ e"
  have conv: "int64_of_float64 pf (of_int ?n) = word_of_int ?n"
    using assms(3,4) by (simp only: int64_of_float64_def truncation_of_int) simp
  have "sint (word_of_int ?n :: 64 word) = ?n"
    using assms(3,4) by (rule sint_word_of_int)
  then have "float64_of_int64 (word_of_int ?n) = of_int ?n"
    using roundToFloat64_exact [OF assms(2), of e] by (simp add: float64_of_int64_def)
  with conv assms(1) show ?thesis
    by (simp only: normalizeCRUDValue_def) simp
qed

lemma normalize_not_integral:
  assumes "column \<notin> set (JSONColumns cfg)" and "of_int \<lfloor>x\<rfloor> \<noteq> x \<or> x < - (2 ^ 63) \<or> 2 ^ 63 < x"
  shows "normalizeCRUDValue pf column (GoFloat64 x) cfg = Inr (GoFloat64 x)"
proof -
  have "x \<noteq> float64_of_int64 w" for w
  proof
    assume eq: "x = float64_of_int64 w"
    then have "of_int \<lfloor>x\<rfloor> = x" by (simp add: float64_of_int64_def)
    moreover from eq float64_of_int64_bound [of w] have "- (2 ^ 63) \<le> x \<and> x \<le> 2 ^ 63"
      by (simp add: abs_le_iff)
    ultimately show False using assms(2) by linarith
  qed
  with assms(1) show ?thesis by (simp add: normalizeCRUDValue_def)
qed

lemma normalize_other:
  assumes "column \<notin> set (JSONColumns cfg)" and "\<forall>x. v \<noteq> GoFloat64 x"
  shows "normalizeCRUDValue pf column v cfg = Inr v"
  using assms by (cases v) (simp_all add: normalizeCRUDValue_def)


text \<open>
  Claim C5, as stated: outside the JSON-encoded columns, a JSON number with no fractional
  part is returned as an integer. The float64 \<open>10^19\<close> (the significand \<open>5^19\<close>, below
  \<open>2^53\<close>, times \<open>2^19\<close>) has no fractional part and is returned unchanged, as a
  float64.
\<close>

theorem value_coercion_counterexample:
  "(10 ^ 19 :: rat) = of_int (19073486328125 * 2 ^ 19) \<and>
   (19073486328125 :: int) < 2 ^ 53 \<and>
   of_int \<lfloor>10 ^ 19 :: rat\<rfloor> = (10 ^ 19 :: rat) \<and>
   ''position'' \<notin> set (JSONColumns (configs ! 0)) \<and>
   normalizeCRUDValue samplePlatform ''position'' (GoFloat64 (10 ^ 19)) (configs ! 0) =
     Inr (GoFloat64 (10 ^ 19))"
proof -
  have "(10 ^ 19 :: rat) = of_int (19073486328125 * 2 ^ 19)" by simp
  moreover have "(19073486328125 :: int) < 2 ^ 53" by simp
  moreover have "of_int \<lfloor>10 ^ 19 :: rat\<rfloor> = (10 ^ 19 :: rat)" by simp
  moreover have "''position'' \<notin> set (JSONColumns (configs ! 0))"
    by (simp add: configs_def)
  moreover have "normalizeCRUDValue samplePlatform ''position'' (GoFloat64 (10 ^ 19)) (configs ! 0) =
     Inr (GoFloat64 (10 ^ 19))"
    by code_simp
  ultimately show ?thesis by blast
qed

lemma normalize_at_limit:
  assumes "column \<notin> set (JSONColumns cfg)"
  shows "normalizeCRUDValue pf column (GoFloat64 (2 ^ 63)) cfg =
     (if float64_of_int64 (int64OutOfRange pf (2 ^ 63)) = 2 ^ 63
      then Inr (GoInt64 (int64OutOfRange pf (2 ^ 63)))
      else Inr (GoFloat64 (2 ^ 63)))"
proof -
  have "truncation (2 ^ 63) = 2 ^ 63"
    using truncation_of_int [of "2 ^ 63"] by simp
  then have "int64_of_float64 pf (2 ^ 63) = int64OutOfRange pf (2 ^ 63)"
    by (simp add: int64_of_float64_def)
  with assms show ?thesis
    by (auto simp: normalizeCRUDValue_def)
qed

text \<open>
  Claim C5, amended. For a column of the JSON-encoded set the value is returned as the
  text that \<^verbatim>\<open>json.Marshal\<close> gives, and a failure of \<^verbatim>\<open>json.Marshal\<close> is the error
  "invalid JSON value for" followed by the column. For any other column, a float64 with
  no fractional part that lies in the range of int64 (a significand below \<open>2^53\<close> times a
  power of two, from \<open>-2^63\<close> up to but not including \<open>2^63\<close>) is returned as that
  int64; a float64 with a fractional part, or below \<open>-2^63\<close>, or above \<open>2^63\<close>, is
  returned unchanged; a value that is no float64 is returned unchanged. At exactly
  \<open>2^63\<close>, where Go leaves \<^verbatim>\<open>int64(x)\<close> to the implementation, the number is returned
  as the int64 that the platform's conversion gives when that int64 converts back to
  \<open>2^63\<close>, and unchanged otherwise.
\<close>

theorem value_coercion:
  "(column \<in> set (JSONColumns cfg) \<longrightarrow>
      normalizeCRUDValue pf column v cfg =
        (case jsonMarshal pf v of
           None \<Rightarrow> Inl (''invalid JSON value for '' @ column)
         | Some raw \<Rightarrow> Inr (GoString raw))) \<and>
   (column \<notin> set (JSONColumns cfg) \<longrightarrow>
      (\<forall>m e. \<bar>m\<bar> < 2 ^ 53 \<and> - (2 ^ 63) \<le> m * 2 ^ e \<and> m * 2 ^ e < 2 ^ 63 \<longrightarrow>
         normalizeCRUDValue pf column (GoFloat64 (of_int (m * 2 ^ e))) cfg =
           Inr (GoInt64 (word_of_int (m * 2 ^ e)))) \<and>
      (\<forall>x. of_int \<lfloor>x\<rfloor> \<noteq> x \<or> x < - (2 ^ 63) \<or> 2 ^ 63 < x \<longrightarrow>
         normalizeCRUDValue pf column (GoFloat64 x) cfg = Inr (GoFloat64 x)) \<and>
      normalizeCRUDValue pf column (GoFloat64 (2 ^ 63)) cfg =
        (if float64_of_int64 (int64OutOfRange pf (2 ^ 63)) = 2 ^ 63
         then Inr (GoInt64 (int64OutOfRange pf (2 ^ 63)))
         else Inr (GoFloat64 (2 ^ 63))) \<and>
      ((\<forall>x. v \<noteq> GoFloat64 x) \<longrightarrow> normalizeCRUDValue pf column v cfg = Inr v))"
proof (intro conjI impI allI)
  assume "column \<in> set (JSONColumns cfg)"
  then show "normalizeCRUDValue pf column v cfg =
        (case jsonMarshal pf v of
           None \<Rightarrow> Inl (''invalid JSON value for '' @ column)
         | Some raw \<Rightarrow> Inr (GoString raw))"
    by (simp add: normalizeCRUDValue_def)
next
  fix m :: int and e :: nat
  assume "column \<notin> set (JSONColumns cfg)"
    and "\<bar>m\<bar> < 2 ^ 53 \<and> - (2 ^ 63) \<le> m * 2 ^ e \<and> m * 2 ^ e < 2 ^ 63"
  then show "normalizeCRUDValue pf column (GoFloat64 (of_int (m * 2 ^ e))) cfg =
           Inr (GoInt64 (word_of_int (m * 2 ^ e)))"
    using normalize_integral [of column cfg m e pf] by blast
next
  fix x :: rat
  assume "column \<notin> set (JSONColumns cfg)"
    and "of_int \<lfloor>x\<rfloor> \<noteq> x \<or> x < - (2 ^ 63) \<or> 2 ^ 63 < x"
  then show "normalizeCRUDValue pf column (GoFloat64 x) cfg = Inr (GoFloat64 x)"
    by (rule normalize_not_integral)
next
  assume "column \<notin> set (JSONColumns cfg)"
  then show "normalizeCRUDValue pf column (GoFloat64 (2 ^ 63)) cfg =
        (if float64_of_int64 (int64OutOfRange pf (2 ^ 63)) = 2 ^ 63
         then Inr (GoInt64 (int64OutOfRange pf (2 ^ 63)))
         else Inr (GoFloat64 (2 ^ 63)))"
    by (rule normalize_at_limit)
next
  assume "column \<notin> set (JSONColumns cfg)" and "\<forall>x. v \<noteq> GoFloat64 x"
  then show "normalizeCRUDValue pf column v cfg = Inr v"
    by (rule normalize_other)
qed

theorem value_coercion_witness:
  "normalizeCRUDValue samplePlatform ''full_image_url'' (GoSlice [GoString ''a'']) (configs ! 7) =
     Inr (GoString (''['' @ jsonQuote ''a'' @ '']'')) \<and>
   normalizeCRUDValue samplePlatform ''position'' (GoFloat64 3) (configs ! 0) = Inr (GoInt64 3) \<and>
   normalizeCRUDValue samplePlatform ''position'' (GoFloat64 (5 / 2)) (configs ! 0) =
     Inr (GoFloat64 (5 / 2)) \<and>
   normalizeCRUDValue samplePlatform ''position'' (GoFloat64 (- (10 ^ 19))) (configs ! 0) =
     Inr (GoFloat64 (- (10 ^ 19))) \<and>
   normalizeCRUDValue samplePlatform ''position'' (GoFloat64 (2 ^ 63)) (configs ! 0) =
     Inr (GoFloat64 (2 ^ 63)) \<and>
   normalizeCRUDValue saturatingPlatform ''position'' (GoFloat64 (2 ^ 63)) (configs ! 0) =
     Inr (GoInt64 (2 ^ 63 - 1)) \<and>
   normalizeCRUDValue samplePlatform ''title'' (GoString ''x'') (configs ! 0) = Inr (GoString ''x'')"
proof -
  have json: "''full_image_url'' \<in> set (JSONColumns (configs ! 7))"
    and plain: "''position'' \<notin> set (JSONColumns (configs ! 0))"
    and plain': "''title'' \<notin> set (JSONColumns (configs ! 0))"
    by (simp_all add: configs_def columnSet_def)
  have marshalled: "jsonMarshal samplePlatform (GoSlice [GoString ''a'']) =
      Some (''['' @ jsonQuote ''a'' @ '']'')"
    by (simp add: samplePlatform_def)
  have three: "\<bar>3 :: int\<bar> < 2 ^ 53 \<and> - (2 ^ 63) \<le> (3 :: int) * 2 ^ 0 \<and> (3 :: int) * 2 ^ 0 < 2 ^ 63"
    by simp
  have "\<lfloor>5 / 2 :: rat\<rfloor> = 2" by (simp add: floor_eq_iff)
  then have half: "of_int \<lfloor>5 / 2 :: rat\<rfloor> \<noteq> (5 / 2 :: rat)" by simp
  have far: "(- (10 ^ 19) :: rat) < - (2 ^ 63)" by simp
  have other: "\<forall>x. GoString ''x'' \<noteq> GoFloat64 x" by simp
  have least: "(if float64_of_int64 (int64OutOfRange samplePlatform (2 ^ 63)) = 2 ^ 63
       then Inr (GoInt64 (int64OutOfRange samplePlatform (2 ^ 63)))
       else Inr (GoFloat64 (2 ^ 63))) = (Inr (GoFloat64 (2 ^ 63)) :: string + any)"
    by code_simp
  have greatest: "(if float64_of_int64 (int64OutOfRange saturatingPlatform (2 ^ 63)) = 2 ^ 63
       then Inr (GoInt64 (int64OutOfRange saturatingPlatform (2 ^ 63)))
       else Inr (GoFloat64 (2 ^ 63))) = (Inr (GoInt64 (2 ^ 63 - 1)) :: string + any)"
    by code_simp
  from value_coercion [of "''full_image_url''" "configs ! 7" samplePlatform "GoSlice [GoString ''a'']"]
    json marshalled
  have a: "normalizeCRUDValue samplePlatform ''full_image_url'' (GoSlice [GoString ''a''])
      (configs ! 7) = Inr (GoString (''['' @ jsonQuote ''a'' @ '']''))"
    by simp
  from value_coercion [of "''position''" "configs ! 0" samplePlatform] plain
  have ints: "\<forall>m e. \<bar>m\<bar> < 2 ^ 53 \<and> - (2 ^ 63) \<le> m * 2 ^ e \<and> m * 2 ^ e < 2 ^ 63 \<longrightarrow>
         normalizeCRUDValue samplePlatform ''position'' (GoFloat64 (of_int (m * 2 ^ e))) (configs ! 0) =
           Inr (GoInt64 (word_of_int (m * 2 ^ e)))"
    and floats: "\<forall>x. of_int \<lfloor>x\<rfloor> \<noteq> x \<or> x < - (2 ^ 63) \<or> 2 ^ 63 < x \<longrightarrow>
         normalizeCRUDValue samplePlatform ''position'' (GoFloat64 x) (configs ! 0) =
           Inr (GoFloat64 x)"
    and limit: "normalizeCRUDValue samplePlatform ''position'' (GoFloat64 (2 ^ 63)) (configs ! 0) =
        (if float64_of_int64 (int64OutOfRange samplePlatform (2 ^ 63)) = 2 ^ 63
         then Inr (GoInt64 (int64OutOfRange samplePlatform (2 ^ 63)))
         else Inr (GoFloat64 (2 ^ 63)))"
    by blast+
  from value_coercion [of "''position''" "configs ! 0" saturatingPlatform] plain
  have limit': "normalizeCRUDValue saturatingPlatform ''position'' (GoFloat64 (2 ^ 63)) (configs ! 0) =
        (if float64_of_int64 (int64OutOfRange saturatingPlatform (2 ^ 63)) = 2 ^ 63
         then Inr (GoInt64 (int64OutOfRange saturatingPlatform (2 ^ 63)))
         else Inr (GoFloat64 (2 ^ 63)))"
    by blast
  from ints three
  have "normalizeCRUDValue samplePlatform ''position'' (GoFloat64 (of_int (3 * 2 ^ 0))) (configs ! 0) =
          Inr (GoInt64 (word_of_int (3 * 2 ^ 0)))"
    by blast
  then have b: "normalizeCRUDValue samplePlatform ''position'' (GoFloat64 3) (configs ! 0) =
      Inr (GoInt64 3)"
    by simp
  from floats half
  have c: "normalizeCRUDValue samplePlatform ''position'' (GoFloat64 (5 / 2)) (configs ! 0) =
      Inr (GoFloat64 (5 / 2))"
    by blast
  from floats far
  have d: "normalizeCRUDValue samplePlatform ''position'' (GoFloat64 (- (10 ^ 19))) (configs ! 0) =
      Inr (GoFloat64 (- (10 ^ 19)))"
    by blast
  from limit least
  have f: "normalizeCRUDValue samplePlatform ''position'' (GoFloat64 (2 ^ 63)) (configs ! 0) =
      Inr (GoFloat64 (2 ^ 63))"
    by (simp only:)
  from limit' greatest
  have g: "normalizeCRUDValue saturatingPlatform ''position'' (GoFloat64 (2 ^ 63)) (configs ! 0) =
      Inr (GoInt64 (2 ^ 63 - 1))"
    by (simp only:)
  from value_coercion [of "''title''" "configs ! 0" samplePlatform "GoString ''x''"] plain' other
  have e: "normalizeCRUDValue samplePlatform ''title'' (GoString ''x'') (configs ! 0) =
      Inr (GoString ''x'')"
    by blast
  from a b c d e f g show ?thesis by blast
qed

end
